theory Spec2Isabelle
  imports Main "HOL-Library.AList"
begin

section \<open>Python values shared by both parsers\<close>

text \<open>
  A log message. Python builds most messages with f-strings; the parts whose text depends on
  the \<open>repr\<close> of a Python list or on a line number are kept structured:
  \<^item> \<open>Str s\<close> is the string \<open>s\<close>;
  \<^item> \<open>StrLine s n\<close> is the f-string \<open>s\<close> followed by the decimal line number \<open>n\<close>;
  \<^item> \<open>StrRepr s ms\<close> is the f-string \<open>s\<close> followed by \<open>repr\<close> of the message list \<open>ms\<close>;
  \<^item> \<open>Items ms\<close> is a list object that was appended to a logger as one entry
    (\<open>logger.append(err.get_messages())\<close>); \<open>Truth b\<close> is a boolean appended in that way.
\<close>

datatype message =
  Str string | StrLine string nat | StrRepr string "message list" | Items "message list" | Truth bool

text \<open>
  What an \<open>SPDXParsingError\<close> carries: the constructor stores its argument as it is, so the
  payload is whatever the raise site passed, a list of messages or (at one site) a boolean.
\<close>

datatype payload = PList "message list" | PBool bool

datatype exn =
    SPDXParsingError payload
  | ConstructorTypeErrors "message list"
  | KeyError
  | AttributeError
  | TypeError
  | ValueError
  | IndexError

text \<open>
  Modelled from the spec: the Error Aggregator (\<open>Logger\<close>, not under src/) is "an ordered,
  append-only list of human-readable defect messages". \<open>append\<close> adds one entry,
  \<open>append_all\<close> iterates over its argument and adds each entry, \<open>has_messages\<close> is
  non-emptiness. Iterating over a boolean is a Python \<open>TypeError\<close>.
\<close>

type_synonym Logger = "message list"

definition append :: "Logger \<Rightarrow> message \<Rightarrow> Logger" where
  "append lg m = lg @ [m]"

definition append_all :: "Logger \<Rightarrow> payload \<Rightarrow> exn + Logger" where
  "append_all lg p = (case p of PList ms \<Rightarrow> Inr (lg @ ms) | PBool b \<Rightarrow> Inl TypeError)"

definition has_messages :: "Logger \<Rightarrow> bool" where
  "has_messages lg = (lg \<noteq> [])"

definition get_messages :: "Logger \<Rightarrow> message list" where
  "get_messages lg = lg"

text \<open>
  Sequencing of calls that may raise: the first exception ends the computation, as an
  uncaught Python exception does.
\<close>

definition ebind :: "exn + 'a \<Rightarrow> ('a \<Rightarrow> exn + 'b) \<Rightarrow> exn + 'b" where
  "ebind r f = (case r of Inl e \<Rightarrow> Inl e | Inr x \<Rightarrow> f x)"

section \<open>The mapping-shaped parser: \<open>RelationshipParser\<close>\<close>

subsection \<open>Input values\<close>

text \<open>
  The nested structure handed over by the structural loader. A dict is an association list with
  distinct keys; \<open>d.get(k)\<close> is \<open>None\<close> for a missing key.
\<close>

datatype jv = JNone | JStr string | JInt int | JBool bool | JList "jv list" | JDict "(string \<times> jv) list"

fun truthy :: "jv \<Rightarrow> bool" where
  "truthy JNone = False"
| "truthy (JStr s) = (s \<noteq> [])"
| "truthy (JInt i) = (i \<noteq> 0)"
| "truthy (JBool b) = b"
| "truthy (JList xs) = (xs \<noteq> [])"
| "truthy (JDict kvs) = (kvs \<noteq> [])"

fun type_name :: "jv \<Rightarrow> string" where
  "type_name JNone = ''NoneType''"
| "type_name (JStr s) = ''str''"
| "type_name (JInt i) = ''int''"
| "type_name (JBool b) = ''bool''"
| "type_name (JList xs) = ''list''"
| "type_name (JDict kvs) = ''dict''"

text \<open>\<open>x.get(k)\<close>: only a dict has the method.\<close>

fun py_get :: "jv \<Rightarrow> string \<Rightarrow> exn + jv" where
  "py_get (JDict kvs) k = Inr (case map_of kvs k of None \<Rightarrow> JNone | Some v \<Rightarrow> v)"
| "py_get _ k = Inl AttributeError"

text \<open>\<open>for x in v\<close>: a list yields its entries, a string its characters, a dict its keys.\<close>

fun py_iter :: "jv \<Rightarrow> exn + jv list" where
  "py_iter (JList xs) = Inr xs"
| "py_iter (JStr s) = Inr (map (\<lambda>c. JStr [c]) s)"
| "py_iter (JDict kvs) = Inr (map (\<lambda>kv. JStr (fst kv)) kvs)"
| "py_iter _ = Inl TypeError"

subsection \<open>The relationship model\<close>

text \<open>
  Modelled from the spec: the enumeration \<open>RelationshipType\<close> (src.model.relationship is not
  under src/). The spec names DESCRIBES, DESCRIBED_BY, CONTAINS, CONTAINED_BY and DEPENDENCY_OF;
  every further member is \<open>OTHER_TYPE name\<close>, and which names are members is the parameter
  \<open>members\<close>. \<open>RelationshipType[name]\<close> raises \<open>KeyError\<close> for a name that is no member.
\<close>

datatype RelationshipType =
  DESCRIBES | DESCRIBED_BY | CONTAINS | CONTAINED_BY | DEPENDENCY_OF | OTHER_TYPE string

definition RelationshipType_getitem :: "(string \<Rightarrow> bool) \<Rightarrow> string \<Rightarrow> exn + RelationshipType" where
  "RelationshipType_getitem members name =
     (if name = ''DESCRIBES'' then Inr DESCRIBES
      else if name = ''DESCRIBED_BY'' then Inr DESCRIBED_BY
      else if name = ''CONTAINS'' then Inr CONTAINS
      else if name = ''CONTAINED_BY'' then Inr CONTAINED_BY
      else if name = ''DEPENDENCY_OF'' then Inr DEPENDENCY_OF
      else if members name then Inr (OTHER_TYPE name)
      else Inl KeyError)"

text \<open>
  Modelled from the spec: a Relationship is \<open>(spdx_element_id, relationship_type,
  related_spdx_element_id, optional comment)\<close>, and typed construction "raises one error per
  invalid field" (\<open>ConstructorTypeErrors\<close>). The ids must be strings, the comment a string or
  \<open>None\<close>. Equality of two relationships compares all four fields.
\<close>

record Relationship =
  spdx_element_id :: string
  relationship_type :: RelationshipType
  related_spdx_element_id :: string
  comment :: "string option"

definition Relationship_init :: "jv \<Rightarrow> RelationshipType \<Rightarrow> jv \<Rightarrow> jv \<Rightarrow> exn + Relationship" where
  "Relationship_init elem ty related com =
     (let errs =
        (case elem of JStr s \<Rightarrow> [] | _ \<Rightarrow> [Str ''spdx_element_id'']) @
        (case related of JStr s \<Rightarrow> [] | _ \<Rightarrow> [Str ''related_spdx_element_id'']) @
        (case com of JStr s \<Rightarrow> [] | JNone \<Rightarrow> [] | _ \<Rightarrow> [Str ''comment''])
      in case (elem, related) of
           (JStr a, JStr b) \<Rightarrow>
             (case com of
                JNone \<Rightarrow> Inr \<lparr>spdx_element_id = a, relationship_type = ty,
                               related_spdx_element_id = b, comment = None\<rparr>
              | JStr c \<Rightarrow> Inr \<lparr>spdx_element_id = a, relationship_type = ty,
                                related_spdx_element_id = b, comment = Some c\<rparr>
              | _ \<Rightarrow> Inl (ConstructorTypeErrors errs))
         | _ \<Rightarrow> Inl (ConstructorTypeErrors errs))"

subsection \<open>Helpers of \<open>dict_parsing_functions\<close>\<close>

text \<open>
  Modelled from the spec: enumerated fields "are looked up by normalized token text
  (case/hyphen-normalized)": \<open>transform_json_str_to_enum_name\<close> (not under src/) replaces
  \<open>-\<close> by \<open>_\<close> and upper-cases. Called on a value that is no string it raises
  \<open>AttributeError\<close>.
\<close>

definition upper_char :: "char \<Rightarrow> char" where
  "upper_char c =
     (case map_of (zip ''abcdefghijklmnopqrstuvwxyz'' ''ABCDEFGHIJKLMNOPQRSTUVWXYZ'') c of
        None \<Rightarrow> c | Some u \<Rightarrow> u)"

definition transform_json_str_to_enum_name :: "jv \<Rightarrow> exn + string" where
  "transform_json_str_to_enum_name v =
     (case v of
        JStr s \<Rightarrow> Inr (map upper_char (map (\<lambda>c. if c = CHR ''-'' then CHR ''_'' else c) s))
      | _ \<Rightarrow> Inl AttributeError)"

text \<open>
  Modelled from the spec: \<open>try_construction_raise_parsing_error\<close> (not under src/) runs the
  typed construction and turns its failure into one \<open>SPDXParsingError\<close> message.
\<close>

definition try_construction_raise_parsing_error_Relationship ::
  "jv \<Rightarrow> RelationshipType \<Rightarrow> jv \<Rightarrow> jv \<Rightarrow> exn + Relationship" where
  "try_construction_raise_parsing_error_Relationship elem ty related com =
     (case Relationship_init elem ty related com of
        Inl (ConstructorTypeErrors ms) \<Rightarrow>
          Inl (SPDXParsingError (PList [StrRepr ''Error while constructing Relationship: '' ms]))
      | Inl e \<Rightarrow> Inl e
      | Inr r \<Rightarrow> Inr r)"

text \<open>
  Modelled from the spec: \<open>try_parse_required_field_append_logger_when_failing\<close> (not under
  src/) calls the parsing method on the field; an \<open>SPDXParsingError\<close> is caught, its messages
  are appended to the logger and the result is \<open>None\<close>. The new logger is returned with the
  result.
\<close>

definition try_parse_required_field_append_logger_when_failing ::
  "Logger \<Rightarrow> jv \<Rightarrow> (jv \<Rightarrow> exn + 'a) \<Rightarrow> exn + (Logger \<times> 'a option)" where
  "try_parse_required_field_append_logger_when_failing lg field method_to_parse =
     (case method_to_parse field of
        Inr x \<Rightarrow> Inr (lg, Some x)
      | Inl (SPDXParsingError p) \<Rightarrow>
          (case append_all lg p of Inl e \<Rightarrow> Inl e | Inr lg' \<Rightarrow> Inr (lg', None))
      | Inl e \<Rightarrow> Inl e)"

subsection \<open>Parsing the explicit relationships\<close>

definition parse_relationship_type :: "(string \<Rightarrow> bool) \<Rightarrow> jv \<Rightarrow> exn + RelationshipType" where
  "parse_relationship_type members relationship_type_str =
     (case transform_json_str_to_enum_name relationship_type_str of
        Inl AttributeError \<Rightarrow>
          Inl (SPDXParsingError (PList
            [Str (''RelationshipType must be str, not '' @ type_name relationship_type_str @ ''.'')]))
      | Inl e \<Rightarrow> Inl e
      | Inr name \<Rightarrow>
          (case RelationshipType_getitem members name of
             Inl KeyError \<Rightarrow>
               Inl (SPDXParsingError (PList
                 [Str (''RelationshipType '' @ (case relationship_type_str of JStr s \<Rightarrow> s | _ \<Rightarrow> [])
                        @ '' is not valid.'')]))
           | Inl e \<Rightarrow> Inl e
           | Inr t \<Rightarrow> Inr t))"

definition parse_relationship :: "(string \<Rightarrow> bool) \<Rightarrow> jv \<Rightarrow> exn + Relationship" where
  "parse_relationship members relationship_dict =
     ebind (py_get relationship_dict ''spdxElementId'') (\<lambda>elem.
     ebind (py_get relationship_dict ''relatedSpdxElement'') (\<lambda>related.
     ebind (py_get relationship_dict ''relationshipType'') (\<lambda>ty_field.
     ebind (try_parse_required_field_append_logger_when_failing [] ty_field
              (parse_relationship_type members)) (\<lambda>(lg, ty).
     ebind (py_get relationship_dict ''comment'') (\<lambda>com.
       if has_messages lg
       then Inl (SPDXParsingError (PList
              [StrRepr ''Error while parsing relationship: '' (get_messages lg)]))
       else (case ty of
               None \<Rightarrow> Inl (SPDXParsingError (PList
                 [StrRepr ''Error while constructing Relationship: '' [Str ''relationship_type'']]))
             | Some t \<Rightarrow> try_construction_raise_parsing_error_Relationship elem t related com))))))"

text \<open>
  The loop of \<open>parse_relationships\<close>, with its local logger and result list as accumulators.
  An exception other than \<open>SPDXParsingError\<close> leaves the loop.
\<close>

fun parse_relationships_loop ::
  "(string \<Rightarrow> bool) \<Rightarrow> jv list \<Rightarrow> Logger \<Rightarrow> Relationship list \<Rightarrow> exn + (Logger \<times> Relationship list)" where
  "parse_relationships_loop members [] lg relationship_list = Inr (lg, relationship_list)"
| "parse_relationships_loop members (relationship_dict # rest) lg relationship_list =
     (case parse_relationship members relationship_dict of
        Inr r \<Rightarrow> parse_relationships_loop members rest lg (relationship_list @ [r])
      | Inl (SPDXParsingError p) \<Rightarrow>
          (case append_all lg p of
             Inl e \<Rightarrow> Inl e
           | Inr lg' \<Rightarrow> parse_relationships_loop members rest lg' relationship_list)
      | Inl e \<Rightarrow> Inl e)"

text \<open>
  The raise at the end passes \<open>logger.has_messages()\<close>, a boolean, to \<open>SPDXParsingError\<close>.
\<close>

definition parse_relationships :: "(string \<Rightarrow> bool) \<Rightarrow> jv \<Rightarrow> exn + Relationship list" where
  "parse_relationships members relationship_dicts =
     ebind (py_iter relationship_dicts) (\<lambda>ds.
     ebind (parse_relationships_loop members ds [] []) (\<lambda>(lg, relationship_list).
       if has_messages lg then Inl (SPDXParsingError (PBool (has_messages lg)))
       else Inr relationship_list))"

subsection \<open>Duplicate detection\<close>

definition ignore_any_comments_in_relationship_list :: "Relationship list \<Rightarrow> Relationship list" where
  "ignore_any_comments_in_relationship_list created_relationships =
     map (\<lambda>relationship.
            \<lparr>spdx_element_id = spdx_element_id relationship,
             relationship_type = relationship_type relationship,
             related_spdx_element_id = related_spdx_element_id relationship,
             comment = None\<rparr>) created_relationships"

text \<open>The class-level dict \<open>convert_relationship_types\<close>; indexing it with another type is a \<open>KeyError\<close>.\<close>

fun convert_relationship_types :: "RelationshipType \<Rightarrow> exn + RelationshipType" where
  "convert_relationship_types DESCRIBES = Inr DESCRIBED_BY"
| "convert_relationship_types DESCRIBED_BY = Inr DESCRIBES"
| "convert_relationship_types CONTAINS = Inr CONTAINED_BY"
| "convert_relationship_types CONTAINED_BY = Inr CONTAINS"
| "convert_relationship_types _ = Inl KeyError"

definition convert_relationship :: "Relationship \<Rightarrow> exn + Relationship" where
  "convert_relationship relationship =
     ebind (convert_relationship_types (relationship_type relationship)) (\<lambda>t.
       Inr \<lparr>spdx_element_id = related_spdx_element_id relationship,
            relationship_type = t,
            related_spdx_element_id = spdx_element_id relationship,
            comment = comment relationship\<rparr>)"

definition check_if_relationship_exists :: "Relationship \<Rightarrow> Relationship list \<Rightarrow> exn + bool" where
  "check_if_relationship_exists relationship created_relationships =
     (let created_relationships_without_comment =
            ignore_any_comments_in_relationship_list created_relationships
      in if relationship \<in> set created_relationships_without_comment then Inr True
         else ebind (convert_relationship relationship) (\<lambda>relationship_converted.
                if relationship_converted \<in> set created_relationships_without_comment then Inr True
                else Inr False))"

subsection \<open>The implied relationships\<close>

fun parse_document_describes_loop ::
  "jv \<Rightarrow> jv list \<Rightarrow> Relationship list \<Rightarrow> Logger \<Rightarrow> Relationship list
     \<Rightarrow> exn + (Logger \<times> Relationship list)" where
  "parse_document_describes_loop doc_spdx_id [] created lg describes_relationships =
     Inr (lg, describes_relationships)"
| "parse_document_describes_loop doc_spdx_id (spdx_id # rest) created lg describes_relationships =
     (case Relationship_init doc_spdx_id DESCRIBES spdx_id JNone of
        Inl (ConstructorTypeErrors ms) \<Rightarrow>
          parse_document_describes_loop doc_spdx_id rest created (append lg (Items ms))
            describes_relationships
      | Inl e \<Rightarrow> Inl e
      | Inr describes_relationship \<Rightarrow>
          (case check_if_relationship_exists describes_relationship created of
             Inl e \<Rightarrow> Inl e
           | Inr found \<Rightarrow>
               parse_document_describes_loop doc_spdx_id rest created lg
                 (if \<not> found then describes_relationships @ [describes_relationship]
                  else describes_relationships)))"

definition parse_document_describes ::
  "jv \<Rightarrow> jv \<Rightarrow> Relationship list \<Rightarrow> exn + Relationship list" where
  "parse_document_describes doc_spdx_id described_spdx_ids created_relationships =
     ebind (py_iter described_spdx_ids) (\<lambda>ids.
     ebind (parse_document_describes_loop doc_spdx_id ids created_relationships [] [])
       (\<lambda>(lg, describes_relationships).
          if has_messages lg
          then Inl (SPDXParsingError (PList
                 [StrRepr ''Error while creating describes_relationship : '' (get_messages lg)]))
          else Inr describes_relationships))"

text \<open>The inner loop of \<open>parse_has_files\<close>, over the \<open>hasFiles\<close> of one package.\<close>

fun parse_has_files_inner ::
  "jv \<Rightarrow> jv list \<Rightarrow> Relationship list \<Rightarrow> Logger \<Rightarrow> Relationship list
     \<Rightarrow> exn + (Logger \<times> Relationship list)" where
  "parse_has_files_inner package_spdx_id [] created lg contains_relationships =
     Inr (lg, contains_relationships)"
| "parse_has_files_inner package_spdx_id (file_spdx_id # rest) created lg contains_relationships =
     (case Relationship_init package_spdx_id CONTAINS file_spdx_id JNone of
        Inl (ConstructorTypeErrors ms) \<Rightarrow>
          parse_has_files_inner package_spdx_id rest created (append lg (Items ms))
            contains_relationships
      | Inl e \<Rightarrow> Inl e
      | Inr contains_relationship \<Rightarrow>
          (case check_if_relationship_exists contains_relationship created of
             Inl e \<Rightarrow> Inl e
           | Inr found \<Rightarrow>
               parse_has_files_inner package_spdx_id rest created lg
                 (if \<not> found then contains_relationships @ [contains_relationship]
                  else contains_relationships)))"

fun parse_has_files_loop ::
  "jv list \<Rightarrow> Relationship list \<Rightarrow> Logger \<Rightarrow> Relationship list
     \<Rightarrow> exn + (Logger \<times> Relationship list)" where
  "parse_has_files_loop [] created lg contains_relationships = Inr (lg, contains_relationships)"
| "parse_has_files_loop (package # rest) created lg contains_relationships =
     ebind (py_get package ''SPDXID'') (\<lambda>package_spdx_id.
     ebind (py_get package ''hasFiles'') (\<lambda>contained_files.
       if \<not> truthy contained_files
       then parse_has_files_loop rest created lg contains_relationships
       else
         ebind (py_iter contained_files) (\<lambda>files.
         ebind (parse_has_files_inner package_spdx_id files created lg contains_relationships)
           (\<lambda>(lg', contains_relationships').
              parse_has_files_loop rest created lg' contains_relationships'))))"

definition parse_has_files :: "jv \<Rightarrow> Relationship list \<Rightarrow> exn + Relationship list" where
  "parse_has_files package_dicts created_relationships =
     ebind (py_iter package_dicts) (\<lambda>packages.
     ebind (parse_has_files_loop packages created_relationships [] [])
       (\<lambda>(lg, contains_relationships).
          if has_messages lg
          then Inl (SPDXParsingError (PList
                 [StrRepr ''Error while creating describes_relationship : '' (get_messages lg)]))
          else Inr contains_relationships))"

text \<open>
  \<open>parse_file_dependencies\<close> appends every edge it can construct; it never looks at the
  relationships that exist.
\<close>

fun parse_file_dependencies_inner ::
  "jv \<Rightarrow> jv list \<Rightarrow> Logger \<Rightarrow> Relationship list \<Rightarrow> exn + (Logger \<times> Relationship list)" where
  "parse_file_dependencies_inner file_spdx_id [] lg dependency_relationships =
     Inr (lg, dependency_relationships)"
| "parse_file_dependencies_inner file_spdx_id (dependency # rest) lg dependency_relationships =
     (case Relationship_init dependency DEPENDENCY_OF file_spdx_id JNone of
        Inl (ConstructorTypeErrors ms) \<Rightarrow>
          ebind (append_all lg (PList ms)) (\<lambda>lg'.
            parse_file_dependencies_inner file_spdx_id rest lg' dependency_relationships)
      | Inl e \<Rightarrow> Inl e
      | Inr dependency_relationship \<Rightarrow>
          parse_file_dependencies_inner file_spdx_id rest lg
            (dependency_relationships @ [dependency_relationship]))"

fun parse_file_dependencies_loop ::
  "jv list \<Rightarrow> Logger \<Rightarrow> Relationship list \<Rightarrow> exn + (Logger \<times> Relationship list)" where
  "parse_file_dependencies_loop [] lg dependency_relationships = Inr (lg, dependency_relationships)"
| "parse_file_dependencies_loop (file # rest) lg dependency_relationships =
     ebind (py_get file ''SPDXID'') (\<lambda>file_spdx_id.
     ebind (py_get file ''fileDependencies'') (\<lambda>dependency_of.
       if \<not> truthy dependency_of
       then parse_file_dependencies_loop rest lg dependency_relationships
       else
         ebind (py_iter dependency_of) (\<lambda>deps.
         ebind (parse_file_dependencies_inner file_spdx_id deps lg dependency_relationships)
           (\<lambda>(lg', dependency_relationships').
              parse_file_dependencies_loop rest lg' dependency_relationships'))))"

definition parse_file_dependencies :: "jv \<Rightarrow> exn + Relationship list" where
  "parse_file_dependencies file_dicts =
     ebind (py_iter file_dicts) (\<lambda>files.
     ebind (parse_file_dependencies_loop files [] [])
       (\<lambda>(lg, dependency_relationships).
          if has_messages lg
          then Inl (SPDXParsingError (PList
                 [StrRepr ''Error while creating dependency relationships: '' (get_messages lg)]))
          else Inr dependency_relationships))"

definition parse_artifact_of :: "jv \<Rightarrow> Relationship list" where
  "parse_artifact_of file_dicts = []"

subsection \<open>All relationships of a document\<close>

text \<open>
  One phase of \<open>parse_all_relationships\<close>: a \<open>try\<close> whose result extends the list and whose
  \<open>SPDXParsingError\<close> is appended to the parser's logger with \<open>append_all\<close>. The state is the
  pair of the logger and \<open>relationships_list\<close>.
\<close>

definition try_phase ::
  "Logger \<times> Relationship list \<Rightarrow> exn + Relationship list \<Rightarrow> exn + (Logger \<times> Relationship list)" where
  "try_phase st r =
     (case r of
        Inr relationships \<Rightarrow> Inr (fst st, snd st @ relationships)
      | Inl (SPDXParsingError p) \<Rightarrow> ebind (append_all (fst st) p) (\<lambda>lg. Inr (lg, snd st))
      | Inl e \<Rightarrow> Inl e)"

definition parse_all_relationships :: "(string \<Rightarrow> bool) \<Rightarrow> jv \<Rightarrow> exn + Relationship list" where
  "parse_all_relationships members input_doc_dict =
     ebind (py_get input_doc_dict ''relationships'') (\<lambda>relationships_dicts.
     ebind (if truthy relationships_dicts
            then try_phase ([], []) (parse_relationships members relationships_dicts)
            else Inr ([], [])) (\<lambda>st1.
     ebind (py_get input_doc_dict ''documentDescribes'') (\<lambda>document_describes.
     ebind (py_get input_doc_dict ''SPDXID'') (\<lambda>doc_spdx_id.
     ebind (if truthy document_describes
            then try_phase st1 (parse_document_describes doc_spdx_id document_describes (snd st1))
            else Inr st1) (\<lambda>st2.
     ebind (py_get input_doc_dict ''packages'') (\<lambda>package_dicts.
     ebind (if truthy package_dicts
            then try_phase st2 (parse_has_files package_dicts (snd st2))
            else Inr st2) (\<lambda>st3.
     ebind (py_get input_doc_dict ''files'') (\<lambda>file_dicts.
     ebind (if truthy file_dicts
            then try_phase st3 (parse_file_dependencies file_dicts)
            else Inr st3) (\<lambda>st4.
       if has_messages (fst st4) then Inl (SPDXParsingError (PList (get_messages (fst st4))))
       else Inr (snd st4))))))))))"

subsection \<open>Notions used in the statements about the mapping-shaped parser\<close>

text \<open>A relationship without a comment, as the implied-edge phases construct it.\<close>

definition edge :: "string \<Rightarrow> RelationshipType \<Rightarrow> string \<Rightarrow> Relationship" where
  "edge a t b = \<lparr>spdx_element_id = a, relationship_type = t,
                 related_spdx_element_id = b, comment = None\<rparr>"

text \<open>An entry of \<open>relationships\<close> whose \<open>relationshipType\<close> does not parse.\<close>

definition type_fails :: "(string \<Rightarrow> bool) \<Rightarrow> jv \<Rightarrow> bool" where
  "type_fails members d =
     (case d of
        JDict kvs \<Rightarrow>
          (case parse_relationship_type members
                  (case map_of kvs ''relationshipType'' of None \<Rightarrow> JNone | Some v \<Rightarrow> v) of
             Inl e \<Rightarrow> True | Inr t \<Rightarrow> False)
      | _ \<Rightarrow> False)"

definition malformed :: "string \<Rightarrow> jv" where
  "malformed n = JDict [(''spdxElementId'', JStr ''A''), (''relatedSpdxElement'', JStr ''B''),
                        (''relationshipType'', JStr n)]"

text \<open>Well-shaped entries of \<open>files\<close>, \<open>packages\<close> and \<open>relationships\<close>.\<close>

definition file_dict :: "string \<times> string list \<Rightarrow> jv" where
  "file_dict fd =
     JDict [(''SPDXID'', JStr (fst fd)), (''fileDependencies'', JList (map JStr (snd fd)))]"

definition package_dict :: "string \<times> string list \<Rightarrow> jv" where
  "package_dict pd = JDict [(''SPDXID'', JStr (fst pd)), (''hasFiles'', JList (map JStr (snd pd)))]"

definition relationship_dict :: "string \<Rightarrow> string \<Rightarrow> string \<Rightarrow> string \<Rightarrow> jv" where
  "relationship_dict a t b c =
     JDict [(''spdxElementId'', JStr a), (''relationshipType'', JStr t),
            (''relatedSpdxElement'', JStr b), (''comment'', JStr c)]"

text \<open>The candidate is kept: the membership test of the code returns \<open>False\<close>.\<close>

definition is_new :: "Relationship list \<Rightarrow> Relationship \<Rightarrow> bool" where
  "is_new created r = (check_if_relationship_exists r created = Inr False)"

text \<open>
  The duplicate test in the spec's words: relationship identity "ignores the comment field
  entirely"; the semantic inverse has "source/target swapped and type replaced by its paired
  type (DESCRIBES, DESCRIBED_BY and CONTAINS, CONTAINED_BY); only these two pairs have
  inverses"; a candidate is a duplicate when it, or its inverse, is among the existing
  relationships.
\<close>

definition without_comment :: "Relationship \<Rightarrow> Relationship" where
  "without_comment r = r\<lparr>comment := None\<rparr>"

fun inverse_type :: "RelationshipType \<Rightarrow> RelationshipType option" where
  "inverse_type DESCRIBES = Some DESCRIBED_BY"
| "inverse_type DESCRIBED_BY = Some DESCRIBES"
| "inverse_type CONTAINS = Some CONTAINED_BY"
| "inverse_type CONTAINED_BY = Some CONTAINS"
| "inverse_type _ = None"

definition semantic_inverse :: "Relationship \<Rightarrow> Relationship option" where
  "semantic_inverse r =
     map_option (\<lambda>t. \<lparr>spdx_element_id = related_spdx_element_id r, relationship_type = t,
                       related_spdx_element_id = spdx_element_id r, comment = comment r\<rparr>)
       (inverse_type (relationship_type r))"

definition duplicate_of_existing :: "Relationship \<Rightarrow> Relationship list \<Rightarrow> bool" where
  "duplicate_of_existing r created =
     ((\<exists>e\<in>set created. without_comment e = without_comment r) \<or>
      (case semantic_inverse r of
         None \<Rightarrow> False
       | Some i \<Rightarrow> (\<exists>e\<in>set created. without_comment e = without_comment i)))"

section \<open>The tag/value parser: \<open>Parser\<close>\<close>

subsection \<open>Python values\<close>

text \<open>
  The values the parser stores in its dicts. \<open>VObj name attrs\<close> is an instance of the model
  class \<open>name\<close> with its attributes; \<open>VEnum cls member\<close> is a member of an enumeration;
  \<open>VTuple a b\<close> is a pair of integers. A dict is an association list in insertion order:
  \<open>d[k] = v\<close> is \<open>AList.update k v d\<close>, \<open>k in d\<close> is \<open>map_of d k \<noteq> None\<close>.
\<close>

datatype val =
    PyNone
  | VStr string
  | VBool bool
  | VTuple nat nat
  | VList "val list"
  | SpdxNone
  | SpdxNoAssertion
  | VEnum string string
  | VRelationshipType RelationshipType
  | VObj string "(string \<times> val) list"

type_synonym dict = "(string \<times> val) list"

text \<open>
  \<open>d.setdefault(k, []).append(v)\<close>: the list under \<open>k\<close> (a new one if \<open>k\<close> is missing) gets
  \<open>v\<close> at its end. When \<open>k\<close> holds a value that is no list, that value has no \<open>append\<close>: an
  \<open>AttributeError\<close>.
\<close>

definition setdefault_append :: "string \<Rightarrow> val \<Rightarrow> dict \<Rightarrow> exn + dict" where
  "setdefault_append k v d =
     (case map_of d k of
        None \<Rightarrow> Inr (AList.update k (VList [v]) d)
      | Some (VList xs) \<Rightarrow> Inr (AList.update k (VList (xs @ [v])) d)
      | Some _ \<Rightarrow> Inl AttributeError)"

text \<open>\<open>o.name\<close> on a value.\<close>

fun getattr :: "val \<Rightarrow> string \<Rightarrow> exn + val" where
  "getattr (VObj c attrs) name = (case map_of attrs name of None \<Rightarrow> Inl AttributeError | Some v \<Rightarrow> Inr v)"
| "getattr _ name = Inl AttributeError"

subsection \<open>Strings\<close>

text \<open>\<open>s.split(sep)\<close> for a separator of one character, \<open>s.replace("-", "_")\<close>, \<open>s.strip()\<close>.\<close>

fun split :: "char \<Rightarrow> string \<Rightarrow> string list" where
  "split sep [] = [[]]"
| "split sep (x # xs) =
     (if x = sep then [] # split sep xs
      else (case split sep xs of w # ws \<Rightarrow> (x # w) # ws | [] \<Rightarrow> [[x]]))"

definition replace_hyphen :: "string \<Rightarrow> string" where
  "replace_hyphen s = map (\<lambda>c. if c = CHR ''-'' then CHR ''_'' else c) s"

text \<open>
  The whitespace of \<open>str.strip()\<close>, of \<open>int()\<close> and of \<open>\s\<close> in a pattern over \<open>str\<close>, among the
  characters below U+0100: the controls U+0009 to U+000D and U+001C to U+001F, the space,
  U+0085 (next line) and U+00A0 (no-break space).
\<close>

definition is_space :: "char \<Rightarrow> bool" where
  "is_space c = (c \<in> set [CHR 0x09, CHR 0x0A, CHR 0x0B, CHR 0x0C, CHR 0x0D,
                            CHR 0x1C, CHR 0x1D, CHR 0x1E, CHR 0x1F, CHR '' '',
                            CHR 0x85, CHR 0xA0])"

definition strip :: "string \<Rightarrow> string" where
  "strip s = rev (dropWhile is_space (rev (dropWhile is_space s)))"

definition is_digit :: "char \<Rightarrow> bool" where
  "is_digit c = (c \<in> set ''0123456789'')"

text \<open>\<open>int(s)\<close> for a string of digits with surrounding whitespace; anything else is a \<open>ValueError\<close>.\<close>

definition py_int :: "string \<Rightarrow> exn + nat" where
  "py_int s =
     (let t = strip s
      in if t \<noteq> [] \<and> list_all is_digit t
         then Inr (foldl (\<lambda>n c. 10 * n + (of_char c - 48)) 0 t)
         else Inl ValueError)"

text \<open>
  The pattern \<open>^(\d+):(\d+)$\<close> of the snippet ranges, matched against a stripped string:
  digits, a colon, digits.
\<close>

definition range_re_match :: "string \<Rightarrow> bool" where
  "range_re_match s =
     (let a = takeWhile is_digit s; r = dropWhile is_digit s
      in a \<noteq> [] \<and> r \<noteq> [] \<and> hd r = CHR '':'' \<and> tl r \<noteq> [] \<and> list_all is_digit (tl r))"

text \<open>
  The pattern \<open>([0-9a-f]+)\s*(\(excludes:\s*(.+)\))?\<close> of the package verification code,
  matched at the start of the string. Group 1 is the longest prefix of lowercase hexadecimal
  digits and must not be empty, otherwise there is no match (\<open>None\<close>). Group 3, when the
  optional part matches, is found by backtracking: \<open>\s*\<close> takes as much leading whitespace
  as it can while \<open>(.+)\<close>, which does not cross a newline, still has at least one character
  before a closing parenthesis, and \<open>(.+)\<close> then runs to the last such parenthesis.
\<close>

definition is_hex_lower :: "char \<Rightarrow> bool" where
  "is_hex_lower c = (c \<in> set ''0123456789abcdef'')"

definition dot_plus_paren :: "string \<Rightarrow> string option" where
  "dot_plus_paren r =
     (let line = takeWhile (\<lambda>c. c \<noteq> CHR 0x0A) r;
          ms = filter (\<lambda>m. line ! m = CHR '')'') [1..<length line]
      in if ms = [] then None else Some (take (last ms) r))"

fun excludes_group :: "nat \<Rightarrow> string \<Rightarrow> string option" where
  "excludes_group 0 t = dot_plus_paren t"
| "excludes_group (Suc k) t =
     (case dot_plus_paren (drop (Suc k) t) of
        Some g \<Rightarrow> Some g
      | None \<Rightarrow> excludes_group k t)"

definition verif_code_regex_match :: "string \<Rightarrow> (string \<times> string option) option" where
  "verif_code_regex_match s =
     (let code = takeWhile is_hex_lower s;
          rest = dropWhile is_space (dropWhile is_hex_lower s)
      in if code = [] then None
         else if take 10 rest = ''(excludes:''
         then Some (code, excludes_group (length (takeWhile is_space (drop 10 rest))) (drop 10 rest))
         else Some (code, None))"

subsection \<open>Collaborators outside the repository's source files\<close>

text \<open>
  The parser calls leaf parsers and the typed construction of the model classes; none of them
  is under src/, and the parser is modelled for every behaviour they may have:
  \<^item> \<open>construct name args\<close> is the call of the model class \<open>name\<close> with the keyword arguments \<open>args\<close>: the constructed
    object, or the messages of the construction failure;
  \<^item> \<open>str_from_text\<close>, \<open>license_parse\<close> (\<open>get_spdx_licensing().parse\<close>), \<open>parse_actor\<close>,
    \<open>datetime_from_str\<close> and \<open>Version_from_string\<close> are the leaf parsers; the last raises a
    \<open>ValueError\<close> whose first argument is a message;
  \<open>parse_checksum\<close> returns the messages it appends to the logger it is given, and its result;
  \<^item> \<open>relationship_types\<close> and \<open>ext_ref_categories\<close> say which further names are members of
    \<open>RelationshipType\<close> and which names are members of \<open>ExternalPackageRefCategory\<close>.
\<close>

record collaborators =
  construct :: "string \<Rightarrow> dict \<Rightarrow> message list + val"
  str_from_text :: "string \<Rightarrow> val"
  license_parse :: "string \<Rightarrow> exn + val"
  parse_actor :: "string \<Rightarrow> exn + val"
  datetime_from_str :: "string \<Rightarrow> exn + val"
  Version_from_string :: "string \<Rightarrow> message + val"
  parse_checksum :: "string \<Rightarrow> message list \<times> val"
  relationship_types :: "string \<Rightarrow> bool"
  ext_ref_categories :: "string \<Rightarrow> bool"

text \<open>
  Modelled from the spec: \<open>construct_or_raise_parsing_error\<close> and
  \<open>raise_parsing_error_if_logger_has_messages\<close> (spdx.parser.parsing_functions is not under
  src/). The first hands "the field mapping to the external typed-construction
  collaborator" and turns a construction failure into an \<open>SPDXParsingError\<close> of one message;
  the second raises when the logger is non-empty, with the logger's messages, "tagged with
  the element kind" when a name is given.
\<close>

definition construct_or_raise_parsing_error :: "collaborators \<Rightarrow> string \<Rightarrow> dict \<Rightarrow> exn + val" where
  "construct_or_raise_parsing_error c object_to_construct args_for_construction =
     (case construct c object_to_construct args_for_construction of
        Inl ms \<Rightarrow> Inl (SPDXParsingError (PList
                   [StrRepr (''Error while constructing '' @ object_to_construct @ '': '') ms]))
      | Inr obj \<Rightarrow> Inr obj)"

definition raise_parsing_error_if_logger_has_messages :: "Logger \<Rightarrow> string option \<Rightarrow> exn + unit" where
  "raise_parsing_error_if_logger_has_messages lg parsed_object_name =
     (if has_messages lg
      then (case parsed_object_name of
              Some name \<Rightarrow> Inl (SPDXParsingError (PList
                             [StrRepr (''Error while parsing '' @ name @ '': '') (get_messages lg)]))
            | None \<Rightarrow> Inl (SPDXParsingError (PList (get_messages lg))))
      else Inr ())"

text \<open>\<open>logger.append(err.get_messages())\<close>: the payload of the error becomes one entry.\<close>

definition as_entry :: "payload \<Rightarrow> message" where
  "as_entry p = (case p of PList ms \<Rightarrow> Items ms | PBool b \<Rightarrow> Truth b)"

text \<open>A direct call of a model class: its failure is a \<open>ConstructorTypeErrors\<close>.\<close>

definition construct_direct :: "collaborators \<Rightarrow> string \<Rightarrow> dict \<Rightarrow> exn + val" where
  "construct_direct c name args =
     (case construct c name args of Inl ms \<Rightarrow> Inl (ConstructorTypeErrors ms) | Inr obj \<Rightarrow> Inr obj)"

subsection \<open>The parser state\<close>

datatype element_class = File | Annotation | Relationship | Snippet | Package | ExtractedLicensingInfo

fun name_of :: "element_class \<Rightarrow> string" where
  "name_of File = ''File''"
| "name_of Annotation = ''Annotation''"
| "name_of Relationship = ''Relationship''"
| "name_of Snippet = ''Snippet''"
| "name_of Package = ''Package''"
| "name_of ExtractedLicensingInfo = ''ExtractedLicensingInfo''"

fun CLASS_MAPPING :: "element_class \<Rightarrow> string" where
  "CLASS_MAPPING File = ''files''"
| "CLASS_MAPPING Annotation = ''annotations''"
| "CLASS_MAPPING Relationship = ''relationships''"
| "CLASS_MAPPING Snippet = ''snippets''"
| "CLASS_MAPPING Package = ''packages''"
| "CLASS_MAPPING ExtractedLicensingInfo = ''extracted_licensing_info''"

fun ELEMENT_EXPECTED_START_TAG :: "element_class \<Rightarrow> string" where
  "ELEMENT_EXPECTED_START_TAG File = ''FileName''"
| "ELEMENT_EXPECTED_START_TAG Annotation = ''Annotator''"
| "ELEMENT_EXPECTED_START_TAG Relationship = ''Relationship''"
| "ELEMENT_EXPECTED_START_TAG Snippet = ''SnippetSPDXID''"
| "ELEMENT_EXPECTED_START_TAG Package = ''PackageName''"
| "ELEMENT_EXPECTED_START_TAG ExtractedLicensingInfo = ''LicenseID''"

text \<open>
  The dict \<open>current_element\<close> holds the key \<open>"class"\<close> (only while an element is open), the key
  \<open>"logger"\<close> (always, between two handler calls) and the fields of the element; no handler
  writes a field named \<open>class\<close> or \<open>logger\<close>. The three parts are the three fields of the
  record. \<open>creation_info\<close> is split in the same way.
\<close>

record element =
  elem_class :: "element_class option"
  elem_logger :: Logger
  elem_fields :: dict

definition new_element :: element where
  "new_element = \<lparr>elem_class = None, elem_logger = [], elem_fields = []\<rparr>"

record Parser =
  logger :: Logger
  element_stack :: "(element_class \<times> val) list"
  current_element :: element
  creation_info :: dict
  creation_info_logger :: Logger
  elements_build :: dict

definition Parser_init :: Parser where
  "Parser_init = \<lparr>logger = [], element_stack = [], current_element = new_element,
                   creation_info = [], creation_info_logger = [], elements_build = []\<rparr>"

text \<open>The three writes the handlers perform on \<open>current_element\<close>.\<close>

definition set_field :: "string \<Rightarrow> val \<Rightarrow> Parser \<Rightarrow> Parser" where
  "set_field k v st =
     st\<lparr>current_element := (current_element st)
          \<lparr>elem_fields := AList.update k v (elem_fields (current_element st))\<rparr>\<rparr>"

definition append_field :: "string \<Rightarrow> val \<Rightarrow> Parser \<Rightarrow> exn + Parser" where
  "append_field k v st =
     ebind (setdefault_append k v (elem_fields (current_element st))) (\<lambda>d.
       Inr (st\<lparr>current_element := (current_element st)\<lparr>elem_fields := d\<rparr>\<rparr>))"

definition log_element :: "message \<Rightarrow> Parser \<Rightarrow> Parser" where
  "log_element m st =
     st\<lparr>current_element := (current_element st)
          \<lparr>elem_logger := append (elem_logger (current_element st)) m\<rparr>\<rparr>"

definition log_creation_info :: "message \<Rightarrow> Parser \<Rightarrow> Parser" where
  "log_creation_info m st = st\<lparr>creation_info_logger := append (creation_info_logger st) m\<rparr>"

subsection \<open>Scope check, element start and finalization\<close>

definition not_in_scope :: "element_class \<Rightarrow> message" where
  "not_in_scope expected_class =
     Str (''Element '' @ name_of expected_class
          @ '' is not the current element in scope, probably the expected tag to start the element (''
          @ ELEMENT_EXPECTED_START_TAG expected_class @ '') is missing.'')"

definition check_that_current_element_matches_class_for_value ::
  "element_class \<Rightarrow> Parser \<Rightarrow> Parser" where
  "check_that_current_element_matches_class_for_value expected_class st =
     (case elem_class (current_element st) of
        None \<Rightarrow> st\<lparr>logger := append (logger st) (not_in_scope expected_class)\<rparr>
      | Some cl \<Rightarrow>
          if expected_class \<noteq> cl
          then st\<lparr>logger := append (logger st) (not_in_scope expected_class)\<rparr>
          else st)"

definition check_for_preceding_package_and_build_contains_relationship ::
  "collaborators \<Rightarrow> dict \<Rightarrow> dict \<Rightarrow> exn + dict" where
  "check_for_preceding_package_and_build_contains_relationship c current_fields eb =
     (case map_of current_fields ''spdx_id'' of
        None \<Rightarrow> Inl KeyError
      | Some file_spdx_id \<Rightarrow>
          (case map_of eb ''packages'' of
             None \<Rightarrow> Inr eb
           | Some (VList packages) \<Rightarrow>
               if packages = [] then Inl IndexError
               else
                 ebind (getattr (last packages) ''spdx_id'') (\<lambda>package_spdx_id.
                 ebind (construct_direct c ''Relationship''
                          [(''spdx_element_id'', package_spdx_id),
                           (''relationship_type'', VRelationshipType CONTAINS),
                           (''related_spdx_element_id'', file_spdx_id)]) (\<lambda>relationship.
                   (case map_of eb ''relationships'' of
                      None \<Rightarrow> Inl KeyError
                    | Some (VList relationships) \<Rightarrow>
                        if relationship \<notin> set relationships
                        then setdefault_append ''relationships'' relationship eb
                        else Inr eb
                    | Some _ \<Rightarrow> Inl TypeError)))
           | Some _ \<Rightarrow> Inl TypeError))"

text \<open>
  In \<open>self.elements_build.setdefault(key, []).append(construct_or_raise_parsing_error(...))\<close>
  Python evaluates \<open>setdefault\<close> before the argument of \<open>append\<close>: the key exists, with an
  empty list, also when the construction then fails.
\<close>

definition construct_current_element :: "collaborators \<Rightarrow> Parser \<Rightarrow> exn + Parser" where
  "construct_current_element c st =
     (case elem_class (current_element st) of
        None \<Rightarrow> Inr (st\<lparr>current_element := new_element\<rparr>)
      | Some class_name \<Rightarrow>
          (case raise_parsing_error_if_logger_has_messages (elem_logger (current_element st))
                  (Some (name_of class_name)) of
             Inl (SPDXParsingError p) \<Rightarrow>
               Inr (st\<lparr>logger := append (logger st) (as_entry p), current_element := new_element\<rparr>)
           | Inl e \<Rightarrow> Inl e
           | Inr u \<Rightarrow>
               (let key = CLASS_MAPPING class_name;
                    eb = (case map_of (elements_build st) key of
                            None \<Rightarrow> AList.update key (VList []) (elements_build st)
                          | Some v \<Rightarrow> elements_build st)
                in case construct_or_raise_parsing_error c (name_of class_name)
                          (elem_fields (current_element st)) of
                     Inl (SPDXParsingError p) \<Rightarrow>
                       Inr (st\<lparr>logger := append (logger st) (as_entry p),
                               current_element := new_element, elements_build := eb\<rparr>)
                   | Inl e \<Rightarrow> Inl e
                   | Inr obj \<Rightarrow>
                       ebind (setdefault_append key obj eb) (\<lambda>eb'.
                       ebind (if class_name = File
                              then check_for_preceding_package_and_build_contains_relationship c
                                     (elem_fields (current_element st)) eb'
                              else Inr eb') (\<lambda>eb''.
                         Inr (st\<lparr>current_element := new_element, elements_build := eb''\<rparr>))))))"

definition initialize_new_current_element ::
  "collaborators \<Rightarrow> element_class \<Rightarrow> Parser \<Rightarrow> exn + Parser" where
  "initialize_new_current_element c class_name st =
     (let st1 = (case (elem_class (current_element st),
                        map_of (elem_fields (current_element st)) ''spdx_id'') of
                   (Some cl, Some spdx_id) \<Rightarrow> st\<lparr>element_stack := element_stack st @ [(cl, spdx_id)]\<rparr>
                 | _ \<Rightarrow> st)
      in ebind (construct_current_element c st1) (\<lambda>st2.
           Inr (st2\<lparr>current_element := (current_element st2)\<lparr>elem_class := Some class_name\<rparr>\<rparr>)))"


subsection \<open>The grammar's terminals and value nonterminals\<close>

text \<open>
  The LR automaton (\<open>ply.yacc\<close>) is a library; what it does with the token stream is to call
  one handler for every production it reduces. The input of the model is the sequence of
  \<open>attrib\<close> reductions, each with the values of its right-hand side. The value nonterminals
  \<open>text_or_line\<close>, \<open>line_or_no_assertion\<close> (\<open>string or_no_assertion\<close>),
  \<open>line_or_no_assertion_or_none\<close> (\<open>text_or_line or_no_assertion or_none\<close>),
  \<open>license_or_no_assertion_or_none\<close> (\<open>string or_no_assertion or_none\<close>) and
  \<open>actor_or_no_assertion\<close> (\<open>actor_value or_no_assertion\<close>) are reduced by the handlers
  \<open>p_text\<close>, \<open>p_line\<close>, \<open>p_no_assertion\<close>, \<open>p_none\<close>, \<open>p_license\<close> and \<open>p_actor_values\<close>.
\<close>

datatype text_or_line = TEXT string | LINE string

datatype 'a or_no_assertion = NO_ASSERTION | Token 'a

datatype 'a or_none = NONE | NotNone 'a

datatype actor_value = PERSON_VALUE string | ORG_VALUE string

fun reduce_text_or_line :: "collaborators \<Rightarrow> text_or_line \<Rightarrow> val" where
  "reduce_text_or_line c (TEXT s) = str_from_text c s"
| "reduce_text_or_line c (LINE s) = VStr s"

fun reduce_line_or_no_assertion :: "string or_no_assertion \<Rightarrow> val" where
  "reduce_line_or_no_assertion NO_ASSERTION = SpdxNoAssertion"
| "reduce_line_or_no_assertion (Token s) = VStr s"

fun reduce_line_or_no_assertion_or_none ::
  "collaborators \<Rightarrow> text_or_line or_no_assertion or_none \<Rightarrow> val" where
  "reduce_line_or_no_assertion_or_none c NONE = SpdxNone"
| "reduce_line_or_no_assertion_or_none c (NotNone NO_ASSERTION) = SpdxNoAssertion"
| "reduce_line_or_no_assertion_or_none c (NotNone (Token t)) = reduce_text_or_line c t"

fun reduce_license_or_no_assertion_or_none ::
  "collaborators \<Rightarrow> string or_no_assertion or_none \<Rightarrow> exn + val" where
  "reduce_license_or_no_assertion_or_none c NONE = Inr SpdxNone"
| "reduce_license_or_no_assertion_or_none c (NotNone NO_ASSERTION) = Inr SpdxNoAssertion"
| "reduce_license_or_no_assertion_or_none c (NotNone (Token s)) = license_parse c s"

fun reduce_actor_or_no_assertion :: "collaborators \<Rightarrow> actor_value or_no_assertion \<Rightarrow> exn + val" where
  "reduce_actor_or_no_assertion c NO_ASSERTION = Inr SpdxNoAssertion"
| "reduce_actor_or_no_assertion c (Token (PERSON_VALUE s)) = parse_actor c s"
| "reduce_actor_or_no_assertion c (Token (ORG_VALUE s)) = parse_actor c s"

subsection \<open>The value tags whose handler checks the scope and stores the value\<close>

text \<open>
  Most handlers of a value tag have one of two bodies,
  \<^verbatim>\<open>self.check_that_current_element_matches_class_for_value(C); self.current_element[key] = p[2]\<close>
  or the same with \<^verbatim>\<open>self.current_element.setdefault(key, []).append(p[2])\<close>. The tables give, for
  the tag of each such handler, the class \<open>C\<close>, the key and which of the two writes it is.
\<close>

datatype arity = Singular | Repeatable

datatype text_tag =
  LICS_COMMENT | LICS_TEXT | FILE_NOTICE | FILE_LICS_COMMENT | FILE_ATTRIBUTION_TEXT | PKG_DESC | PKG_COMMENT | PKG_ATTRIBUTION_TEXT | PKG_SUM | PKG_LICS_COMMENT | PKG_SRC_INFO | SNIPPET_COMMENT | SNIPPET_ATTRIBUTION_TEXT | SNIPPET_LICS_COMMENT | ANNOTATION_COMMENT

primrec text_tag_rule :: "text_tag \<Rightarrow> element_class \<times> string \<times> arity" where
  "text_tag_rule LICS_COMMENT = (ExtractedLicensingInfo, ''comment'', Singular)"
| "text_tag_rule LICS_TEXT = (ExtractedLicensingInfo, ''extracted_text'', Singular)"
| "text_tag_rule FILE_NOTICE = (File, ''notice'', Singular)"
| "text_tag_rule FILE_LICS_COMMENT = (File, ''license_comment'', Singular)"
| "text_tag_rule FILE_ATTRIBUTION_TEXT = (File, ''attribution_texts'', Repeatable)"
| "text_tag_rule PKG_DESC = (Package, ''description'', Singular)"
| "text_tag_rule PKG_COMMENT = (Package, ''comment'', Singular)"
| "text_tag_rule PKG_ATTRIBUTION_TEXT = (Package, ''attribution_texts'', Repeatable)"
| "text_tag_rule PKG_SUM = (Package, ''summary'', Singular)"
| "text_tag_rule PKG_LICS_COMMENT = (Package, ''license_comment'', Singular)"
| "text_tag_rule PKG_SRC_INFO = (Package, ''source_info'', Singular)"
| "text_tag_rule SNIPPET_COMMENT = (Snippet, ''comment'', Singular)"
| "text_tag_rule SNIPPET_ATTRIBUTION_TEXT = (Snippet, ''attribution_texts'', Repeatable)"
| "text_tag_rule SNIPPET_LICS_COMMENT = (Snippet, ''license_comment'', Singular)"
| "text_tag_rule ANNOTATION_COMMENT = (Annotation, ''annotation_comment'', Singular)"

datatype line_tag =
  LICS_CRS_REF | FILE_CONTRIB | PKG_FILE_NAME | PKG_VERSION | SNIPPET_NAME | SNIPPET_FILE_SPDXID

primrec line_tag_rule :: "line_tag \<Rightarrow> element_class \<times> string \<times> arity" where
  "line_tag_rule LICS_CRS_REF = (ExtractedLicensingInfo, ''cross_references'', Repeatable)"
| "line_tag_rule FILE_CONTRIB = (File, ''contributors'', Repeatable)"
| "line_tag_rule PKG_FILE_NAME = (Package, ''file_name'', Singular)"
| "line_tag_rule PKG_VERSION = (Package, ''version'', Singular)"
| "line_tag_rule SNIPPET_NAME = (Snippet, ''name'', Singular)"
| "line_tag_rule SNIPPET_FILE_SPDXID = (Snippet, ''file_spdx_id'', Singular)"

datatype line_or_sentinel_tag =
  FILE_CR_TEXT | PKG_CPY_TEXT | PKG_HOME | PKG_DOWN | SNIPPET_CR_TEXT

primrec line_or_sentinel_tag_rule :: "line_or_sentinel_tag \<Rightarrow> element_class \<times> string \<times> arity" where
  "line_or_sentinel_tag_rule FILE_CR_TEXT = (File, ''copyright_text'', Singular)"
| "line_or_sentinel_tag_rule PKG_CPY_TEXT = (Package, ''copyright_text'', Singular)"
| "line_or_sentinel_tag_rule PKG_HOME = (Package, ''homepage'', Singular)"
| "line_or_sentinel_tag_rule PKG_DOWN = (Package, ''download_location'', Singular)"
| "line_or_sentinel_tag_rule SNIPPET_CR_TEXT = (Snippet, ''copyright_text'', Singular)"

datatype license_tag =
  FILE_LICS_CONC | PKG_LICS_DECL | PKG_LICS_CONC | SNIPPET_LICS_CONC

primrec license_tag_rule :: "license_tag \<Rightarrow> element_class \<times> string \<times> arity" where
  "license_tag_rule FILE_LICS_CONC = (File, ''license_concluded'', Singular)"
| "license_tag_rule PKG_LICS_DECL = (Package, ''license_declared'', Singular)"
| "license_tag_rule PKG_LICS_CONC = (Package, ''license_concluded'', Singular)"
| "license_tag_rule SNIPPET_LICS_CONC = (Snippet, ''license_concluded'', Singular)"

datatype actor_tag =
  PKG_ORIG | PKG_SUPPL

primrec actor_tag_rule :: "actor_tag \<Rightarrow> element_class \<times> string \<times> arity" where
  "actor_tag_rule PKG_ORIG = (Package, ''originator'', Singular)"
| "actor_tag_rule PKG_SUPPL = (Package, ''supplier'', Singular)"

text \<open>The tags whose handler stores \<open>datetime_from_str(p[2])\<close>, and the two checksum tags.\<close>

datatype date_tag = BUILT_DATE | RELEASE_DATE | VALID_UNTIL_DATE | ANNOTATION_DATE

primrec date_tag_rule :: "date_tag \<Rightarrow> element_class \<times> string" where
  "date_tag_rule BUILT_DATE = (Package, ''built_date'')"
| "date_tag_rule RELEASE_DATE = (Package, ''release_date'')"
| "date_tag_rule VALID_UNTIL_DATE = (Package, ''valid_until_date'')"
| "date_tag_rule ANNOTATION_DATE = (Annotation, ''annotation_date'')"

datatype checksum_tag = FILE_CHECKSUM | PKG_CHECKSUM

primrec checksum_tag_class :: "checksum_tag \<Rightarrow> element_class" where
  "checksum_tag_class FILE_CHECKSUM = File"
| "checksum_tag_class PKG_CHECKSUM = Package"

text \<open>The tags of the creation info whose handler is \<open>self.creation_info[key] = p[2]\<close>.\<close>

datatype creation_text_tag = DOC_COMMENT | CREATOR_COMMENT

primrec creation_text_key :: "creation_text_tag \<Rightarrow> string" where
  "creation_text_key DOC_COMMENT = ''document_comment''"
| "creation_text_key CREATOR_COMMENT = ''creator_comment''"

datatype creation_line_tag = DOC_NAMESPACE | DOC_LICENSE | DOC_NAME | DOC_VERSION

primrec creation_line_key :: "creation_line_tag \<Rightarrow> string" where
  "creation_line_key DOC_NAMESPACE = ''document_namespace''"
| "creation_line_key DOC_LICENSE = ''data_license''"
| "creation_line_key DOC_NAME = ''name''"
| "creation_line_key DOC_VERSION = ''spdx_version''"

subsection \<open>The error productions\<close>

text \<open>
  A production \<open>x : TAG error\<close> appends one message, which ends in the line number of the tag,
  to the logger of the creation info or of the current element. The productions are named
  by their nonterminal; the tables give the text before the line number.
\<close>

datatype creation_error =
  lics_list_ver_error | doc_comment_error | doc_namespace_error | data_lics_error | doc_name_error | ext_doc_ref_error | spdx_version_error | creator_comment_error | creator_error | created_error

primrec creation_error_text :: "creation_error \<Rightarrow> string" where
  "creation_error_text lics_list_ver_error =
     ''Error while parsing LicenseListVersion: Token did not match specified grammar rule. Line: ''"
| "creation_error_text doc_comment_error =
     ''Error while parsing DocumentComment: Token did not match specified grammar rule. Line: ''"
| "creation_error_text doc_namespace_error =
     ''Error while parsing DocumentNamespace: Token did not match specified grammar rule. Line: ''"
| "creation_error_text data_lics_error =
     ''Error while parsing DataLicense: Token did not match specified grammar rule. Line: ''"
| "creation_error_text doc_name_error =
     ''Error while parsing DocumentName: Token did not match specified grammar rule. Line: ''"
| "creation_error_text ext_doc_ref_error =
     ''Error while parsing ExternalDocumentRef: Token did not match specified grammar rule. Line: ''"
| "creation_error_text spdx_version_error =
     ''Error while parsing SPDXVersion: Token did not match specified grammar rule. Line: ''"
| "creation_error_text creator_comment_error =
     ''Error while parsing CreatorComment: Token did not match specified grammar rule. Line: ''"
| "creation_error_text creator_error =
     ''Error while parsing Creator: Token did not match specified grammar rule. Line: ''"
| "creation_error_text created_error =
     ''Error while parsing Created: Token did not match specified grammar rule. Line: ''"

datatype extracted_licensing_info_error =
  extr_lic_id_error | lic_xref_error | lic_comment_error | extr_lic_name_error | extr_lic_text_error

primrec extracted_licensing_info_error_text :: "extracted_licensing_info_error \<Rightarrow> string" where
  "extracted_licensing_info_error_text extr_lic_id_error =
     ''Error while parsing LicenseID: Token did not match specified grammar rule. Line: ''"
| "extracted_licensing_info_error_text lic_xref_error =
     ''Error while parsing LicenseCrossReference: Token did not match specified grammar rule. Line: ''"
| "extracted_licensing_info_error_text lic_comment_error =
     ''Error while parsing LicenseComment: Token did not match specified grammar rule. Line: ''"
| "extracted_licensing_info_error_text extr_lic_name_error =
     ''Error while parsing LicenseName: Token did not match specified grammar rule. Line: ''"
| "extracted_licensing_info_error_text extr_lic_text_error =
     ''Error while parsing ExtractedText: Token did not match specified grammar rule. Line: ''"

datatype file_error =
  file_contrib_error | file_notice_error | file_cr_text_error | file_lics_comment_error | file_attribution_text_error | file_lics_info_error | file_comment_error | file_type_error | file_checksum_error | file_conc_error

primrec file_error_text :: "file_error \<Rightarrow> string" where
  "file_error_text file_contrib_error =
     ''Error while parsing FileContributor: Token did not match specified grammar rule. Line: ''"
| "file_error_text file_notice_error =
     ''Error while parsing FileNotice: Token did not match specified grammar rule. Line: ''"
| "file_error_text file_cr_text_error =
     ''Error while parsing FileCopyrightText: Token did not match specified grammar rule. Line: ''"
| "file_error_text file_lics_comment_error =
     ''Error while parsing LicenseComments in file: Token did not match specified grammar rule. Line: ''"
| "file_error_text file_attribution_text_error =
     ''Error while parsing FileAttributionText: Token did not match specified grammar rule. Line: ''"
| "file_error_text file_lics_info_error =
     ''Error while parsing LicenseInfoInFile: Token did not match specified grammar rule. Line: ''"
| "file_error_text file_comment_error =
     ''Error while parsing FileComment: Token did not match specified grammar rule. Line: ''"
| "file_error_text file_type_error =
     ''Error while parsing FileType: Token did not match any of the valid values. Line: ''"
| "file_error_text file_checksum_error =
     ''Error while parsing Checksum in file: Token did not match specified grammar rule. Line: ''"
| "file_error_text file_conc_error =
     ''Error while parsing LicenseConcluded in file: Token did not match specified grammar rule. Line: ''"

datatype package_error =
  pkg_desc_error | pkg_comment_error | pkg_attribution_text_error | pkg_summary_error | pkg_cr_text_error | pkg_ext_ref_error | pkg_lic_comment_error | pkg_lic_decl_error | pkg_lic_ff_error | pkg_lic_conc_error | pkg_src_info_error | pkg_checksum_error | pkg_verif_error | pkg_home_error | pkg_down_location_error | pkg_files_analyzed_error | pkg_orig_error | pkg_supplier_error | pkg_file_name_error | package_version_error | primary_package_purpose_error | built_date_error | release_date_error | valid_until_date_error

primrec package_error_text :: "package_error \<Rightarrow> string" where
  "package_error_text pkg_desc_error =
     ''Error while parsing PackageDescription: Token did not match specified grammar rule. Line: ''"
| "package_error_text pkg_comment_error =
     ''Error while parsing PackageComment: Token did not match specified grammar rule. Line: ''"
| "package_error_text pkg_attribution_text_error =
     ''Error while parsing PackageAttributionText: Token did not match specified grammar rule. Line: ''"
| "package_error_text pkg_summary_error =
     ''Error while parsing PackageSummary: Token did not match specified grammar rule. Line: ''"
| "package_error_text pkg_cr_text_error =
     ''Error while parsing PackageCopyrightText: Token did not match specified grammar rule. Line: ''"
| "package_error_text pkg_ext_ref_error =
     ''Error while parsing ExternalRef in package: Token did not match specified grammar rule. Line: ''"
| "package_error_text pkg_lic_comment_error =
     ''Error while parsing PackageLicenseComments: Token did not match specified grammar rule. Line: ''"
| "package_error_text pkg_lic_decl_error =
     ''Error while parsing LicenseDeclared in package: Token did not match specified grammar rule. Line: ''"
| "package_error_text pkg_lic_ff_error =
     ''Error while parsing LicenseInfoFromFiles in package: Token did not match specified grammar rule. Line: ''"
| "package_error_text pkg_lic_conc_error =
     ''Error while parsing LicenseConcluded in package: Token did not match specified grammar rule. Line: ''"
| "package_error_text pkg_src_info_error =
     ''Error while parsing PackageSourceInfo: Token did not match specified grammar rule. Line: ''"
| "package_error_text pkg_checksum_error =
     ''Error while parsing PackageChecksum: Token did not match specified grammar rule. Line: ''"
| "package_error_text pkg_verif_error =
     ''Error while parsing PackageVerificationCode: Token did not match specified grammar rule. Line: ''"
| "package_error_text pkg_home_error =
     ''Error while parsing PackageHomePage: Token did not match specified grammar rule. Line: ''"
| "package_error_text pkg_down_location_error =
     ''Error while parsing PackageDownloadLocation: Token did not match specified grammar rule. Line: ''"
| "package_error_text pkg_files_analyzed_error =
     ''Error while parsing FilesAnalyzed in package: Token did not match specified grammar rule. Line: ''"
| "package_error_text pkg_orig_error =
     ''Error while parsing PackageOriginator: Token did not match specified grammar rule. Line: ''"
| "package_error_text pkg_supplier_error =
     ''Error while parsing PackageSupplier: Token did not match specified grammar rule. Line: ''"
| "package_error_text pkg_file_name_error =
     ''Error while parsing PackageFileName: Token did not match specified grammar rule. Line: ''"
| "package_error_text package_version_error =
     ''Error while parsing PackageVersion: Token did not match specified grammar rule. Line: ''"
| "package_error_text primary_package_purpose_error =
     ''Error while parsing PrimaryPackagePurpose: Token did not match specified grammar rule. Line: ''"
| "package_error_text built_date_error =
     ''Error while parsing BuiltDate: Token did not match specified grammar rule. Line: ''"
| "package_error_text release_date_error =
     ''Error while parsing ReleaseDate: Token did not match specified grammar rule. Line: ''"
| "package_error_text valid_until_date_error =
     ''Error while parsing ValidUntilDate: Token did not match specified grammar rule. Line: ''"

datatype snippet_error =
  snip_name_error | snip_comment_error | snippet_attribution_text_error | snip_cr_text_error | snip_lic_comment_error | snip_file_spdx_id_error | snip_lics_conc_error | snip_lics_info_error | snip_byte_range_error | snip_line_range_error

primrec snippet_error_text :: "snippet_error \<Rightarrow> string" where
  "snippet_error_text snip_name_error =
     ''Error while parsing SnippetName: Token did not match specified grammar rule. Line: ''"
| "snippet_error_text snip_comment_error =
     ''Error while parsing SnippetComment: Token did not match specified grammar rule. Line: ''"
| "snippet_error_text snippet_attribution_text_error =
     ''Error while parsing SnippetAttributionText: Token did not match specified grammar rule. Line: ''"
| "snippet_error_text snip_cr_text_error =
     ''Error while parsing SnippetCopyrightText: Token did not match specified grammar rule. Line: ''"
| "snippet_error_text snip_lic_comment_error =
     ''Error while parsing SnippetLicenseComments: Token did not match specified grammar rule. Line: ''"
| "snippet_error_text snip_file_spdx_id_error =
     ''Error while parsing SnippetFromFileSPDXID: Token did not match specified grammar rule. Line: ''"
| "snippet_error_text snip_lics_conc_error =
     ''Error while parsing SnippetLicenseConcluded: Token did not match specified grammar rule. Line: ''"
| "snippet_error_text snip_lics_info_error =
     ''Error while parsing LicenseInfoInSnippet: Token did not match specified grammar rule. Line: ''"
| "snippet_error_text snip_byte_range_error =
     ''Error while parsing SnippetByteRange: Token did not match specified grammar rule. Line: ''"
| "snippet_error_text snip_line_range_error =
     ''Error while parsing SnippetLineRange: Token did not match specified grammar rule. Line: ''"

datatype annotation_error =
  annotation_date_error | annotation_comment_error | annotation_type_error | annotation_spdx_id_error

primrec annotation_error_text :: "annotation_error \<Rightarrow> string" where
  "annotation_error_text annotation_date_error =
     ''Error while parsing AnnotationDate: Token did not match specified grammar rule. Line: ''"
| "annotation_error_text annotation_comment_error =
     ''Error while parsing AnnotationComment: Token did not match specified grammar rule. Line: ''"
| "annotation_error_text annotation_type_error =
     ''Error while parsing AnnotationType: Token did not match specified grammar rule. Line: ''"
| "annotation_error_text annotation_spdx_id_error =
     ''Error while parsing SPDXREF in annotation: Token did not match specified grammar rule. Line: ''"

subsection \<open>The \<open>attrib\<close> productions\<close>

text \<open>
  The productions that start an element. \<open>file_name_error\<close>, \<open>package_name_error\<close> and
  \<open>annotator_error\<close> carry the text of the tag (\<open>p[1]\<close>) and the line number. The grammar of
  \<open>p_annotator\<close> is \<open>annotator : ANNOTATOR PERSON_VALUE | TOOL_VALUE | ORG_VALUE\<close>: the second
  and third alternative have a right-hand side of one symbol (\<open>annotator_bare\<close>). A
  \<open>relationship\<close> carries its value (with the \<open>DOC_REF_ID\<close>, when the production
  \<open>relationship_value : DOC_REF_ID LINE\<close> was used), the text after \<open>RELATIONSHIP_COMMENT\<close>
  when there is one, and the line number.
\<close>

datatype start_attrib =
    extr_lic_id string
  | file_name string
  | file_name_error string nat
  | package_name string
  | package_name_error string nat
  | snip_spdx_id string
  | snip_spdx_id_error nat
  | annotator string
  | annotator_bare
  | annotator_error string nat
  | relationship "string option" string "text_or_line option" nat
  | relationship_error nat

text \<open>The productions of the value tags of the six element kinds.\<close>

datatype value_attrib =
    text_value text_tag text_or_line
  | file_comment text_or_line
  | line_value line_tag string
  | extr_lic_name "string or_no_assertion"
  | line_or_sentinel_value line_or_sentinel_tag "text_or_line or_no_assertion or_none"
  | license_value license_tag "string or_no_assertion or_none"
  | file_lics_info "string or_no_assertion or_none"
  | pkg_lic_ff "string or_no_assertion or_none"
  | snip_lics_info "string or_no_assertion or_none"
  | actor_value actor_tag "actor_value or_no_assertion"
  | date_value date_tag string
  | checksum_value checksum_tag string
  | file_type string
  | primary_package_purpose string
  | annotation_type string
  | pkg_ext_ref string "text_or_line option"
  | pkg_verif string
  | pkg_files_analyzed string
  | snip_byte_range string
  | snip_line_range string
  | annotation_spdx_id string

datatype attrib =
    spdx_id string
  | unknown_tag nat
  | lics_list_ver string
  | creation_text creation_text_tag text_or_line
  | creation_line creation_line_tag string
  | ext_doc_ref string string string
  | creator string
  | created string
  | creation_info_error creation_error nat
  | start_tag start_attrib
  | value_tag value_attrib
  | extr_lic_id_or_value_error extracted_licensing_info_error nat
  | file_value_error file_error nat
  | package_value_error package_error nat
  | snippet_value_error snippet_error nat
  | annotation_value_error annotation_error nat

subsection \<open>Handlers of the document level\<close>

definition p_unknown_tag :: "nat \<Rightarrow> Parser \<Rightarrow> Parser" where
  "p_unknown_tag lineno st = st\<lparr>logger := append (logger st) (StrLine ''Unknown tag provided in line '' lineno)\<rparr>"

definition p_spdx_id :: "string \<Rightarrow> Parser \<Rightarrow> Parser" where
  "p_spdx_id p2 st =
     (if map_of (creation_info st) ''spdx_id'' \<noteq> None
      then set_field ''spdx_id'' (VStr p2) st
      else st\<lparr>creation_info := AList.update ''spdx_id'' (VStr p2) (creation_info st)\<rparr>)"

definition p_license_list_version :: "collaborators \<Rightarrow> string \<Rightarrow> Parser \<Rightarrow> Parser" where
  "p_license_list_version c p2 st =
     (case Version_from_string c p2 of
        Inr v \<Rightarrow> st\<lparr>creation_info := AList.update ''license_list_version'' v (creation_info st)\<rparr>
      | Inl err_arg \<Rightarrow> log_creation_info err_arg st)"

definition p_creation_info_value :: "string \<Rightarrow> val \<Rightarrow> Parser \<Rightarrow> Parser" where
  "p_creation_info_value key p2 st = st\<lparr>creation_info := AList.update key p2 (creation_info st)\<rparr>"

definition p_external_document_ref ::
  "collaborators \<Rightarrow> string \<Rightarrow> string \<Rightarrow> string \<Rightarrow> Parser \<Rightarrow> exn + Parser" where
  "p_external_document_ref c p2 p3 p4 st =
     (let document_ref_id = VStr p2;
          document_uri = VStr p3;
          (msgs, checksum) = parse_checksum c p4;
          st1 = st\<lparr>creation_info_logger := creation_info_logger st @ msgs\<rparr>
      in ebind (construct_direct c ''ExternalDocumentRef''
                  [(''document_ref_id'', document_ref_id), (''document_uri'', document_uri),
                   (''checksum'', checksum)]) (\<lambda>external_document_ref.
         ebind (setdefault_append ''external_document_refs'' external_document_ref
                  (creation_info st1)) (\<lambda>d.
           Inr (st1\<lparr>creation_info := d\<rparr>))))"

definition p_creator :: "collaborators \<Rightarrow> string \<Rightarrow> Parser \<Rightarrow> exn + Parser" where
  "p_creator c p2 st =
     ebind (parse_actor c p2) (\<lambda>actor.
     ebind (setdefault_append ''creators'' actor (creation_info st)) (\<lambda>d.
       Inr (st\<lparr>creation_info := d\<rparr>)))"

definition p_created :: "collaborators \<Rightarrow> string \<Rightarrow> Parser \<Rightarrow> exn + Parser" where
  "p_created c p2 st =
     ebind (datetime_from_str c p2) (\<lambda>d.
       Inr (st\<lparr>creation_info := AList.update ''created'' d (creation_info st)\<rparr>))"

subsection \<open>Handlers that start an element\<close>

definition p_start :: "collaborators \<Rightarrow> element_class \<Rightarrow> string \<Rightarrow> string \<Rightarrow> Parser \<Rightarrow> exn + Parser" where
  "p_start c class_name key p2 st =
     ebind (initialize_new_current_element c class_name st) (\<lambda>st1.
       Inr (set_field key (VStr p2) st1))"

definition p_start_error :: "collaborators \<Rightarrow> element_class \<Rightarrow> message \<Rightarrow> Parser \<Rightarrow> exn + Parser" where
  "p_start_error c class_name m st =
     ebind (initialize_new_current_element c class_name st) (\<lambda>st1.
       Inr (log_element m st1))"

definition did_not_match :: "string \<Rightarrow> nat \<Rightarrow> message" where
  "did_not_match name lineno =
     StrLine (''Error while parsing '' @ name
              @ '': Token did not match specified grammar rule. Line: '') lineno"

definition p_annotator :: "collaborators \<Rightarrow> string \<Rightarrow> Parser \<Rightarrow> exn + Parser" where
  "p_annotator c p2 st =
     ebind (initialize_new_current_element c Annotation st) (\<lambda>st1.
       (case parse_actor c p2 of
          Inr actor \<Rightarrow> Inr (set_field ''annotator'' actor st1)
        | Inl (SPDXParsingError p) \<Rightarrow> Inr (log_element (as_entry p) st1)
        | Inl e \<Rightarrow> Inl e))"

definition p_relationship_value :: "string option \<Rightarrow> string \<Rightarrow> string" where
  "p_relationship_value doc_ref_id line =
     (case doc_ref_id of Some p1 \<Rightarrow> p1 @ '':'' @ line | None \<Rightarrow> line)"

definition p_relationship ::
  "collaborators \<Rightarrow> string \<Rightarrow> val option \<Rightarrow> nat \<Rightarrow> Parser \<Rightarrow> exn + Parser" where
  "p_relationship c p2 p4 lineno st =
     ebind (initialize_new_current_element c Relationship st) (\<lambda>st1.
       (case split (CHR '' '') p2 of
          [element_id, type_str, related_id] \<Rightarrow>
            (let st2 = (case RelationshipType_getitem (relationship_types c) type_str of
                          Inr t \<Rightarrow> set_field ''relationship_type'' (VRelationshipType t) st1
                        | Inl e \<Rightarrow> log_element
                                   (StrLine (''Invalid RelationshipType '' @ type_str
                                             @ ''. Line: '') lineno) st1);
                 related = (if related_id = ''NOASSERTION'' then SpdxNoAssertion
                            else if related_id = ''NONE'' then SpdxNone
                            else VStr related_id);
                 st3 = set_field ''related_spdx_element_id'' related st2;
                 st4 = set_field ''spdx_element_id'' (VStr element_id) st3
             in Inr (case p4 of Some com \<Rightarrow> set_field ''comment'' com st4 | None \<Rightarrow> st4))
        | _ \<Rightarrow>
            Inr (log_element
                   (StrLine (''Relationship couldn't be split in spdx_element_id, relationship_type and ''
                             @ ''related_spdx_element. Line: '') lineno) st1)))"

fun reduce_start :: "collaborators \<Rightarrow> start_attrib \<Rightarrow> Parser \<Rightarrow> exn + Parser" where
  "reduce_start c (extr_lic_id p2) st = p_start c ExtractedLicensingInfo ''license_id'' p2 st"
| "reduce_start c (file_name p2) st = p_start c File ''name'' p2 st"
| "reduce_start c (file_name_error p1 lineno) st = p_start_error c File (did_not_match p1 lineno) st"
| "reduce_start c (package_name p2) st = p_start c Package ''name'' p2 st"
| "reduce_start c (package_name_error p1 lineno) st =
     p_start_error c Package (did_not_match p1 lineno) st"
| "reduce_start c (snip_spdx_id p2) st = p_start c Snippet ''spdx_id'' p2 st"
| "reduce_start c (snip_spdx_id_error lineno) st =
     p_start_error c Snippet (did_not_match ''SnippetSPDXID'' lineno) st"
| "reduce_start c (annotator p2) st = p_annotator c p2 st"
| "reduce_start c annotator_bare st =
     ebind (initialize_new_current_element c Annotation st) (\<lambda>st1. Inl IndexError)"
| "reduce_start c (annotator_error p1 lineno) st =
     p_start_error c Annotation (did_not_match p1 lineno) st"
| "reduce_start c (relationship doc_ref_id line com lineno) st =
     p_relationship c (p_relationship_value doc_ref_id line)
       (map_option (reduce_text_or_line c) com) lineno st"
| "reduce_start c (relationship_error lineno) st =
     p_start_error c Relationship (did_not_match ''Relationship'' lineno) st"

subsection \<open>Handlers of the value tags\<close>

text \<open>
  The two common bodies, for a handler of class \<open>C\<close> and a key. The handlers of the
  enumerated fields index \<open>FileType\<close>, \<open>PackagePurpose\<close> and \<open>AnnotationType\<close> with the
  text of a keyword token that the grammar admits for the tag; the member is \<open>VEnum\<close> of the
  enumeration and that text.
\<close>

definition p_value :: "element_class \<times> string \<times> arity \<Rightarrow> val \<Rightarrow> Parser \<Rightarrow> exn + Parser" where
  "p_value rule p2 st =
     (case rule of (expected_class, key, ar) \<Rightarrow>
        (let st1 = check_that_current_element_matches_class_for_value expected_class st
         in case ar of
              Singular \<Rightarrow> Inr (set_field key p2 st1)
            | Repeatable \<Rightarrow> append_field key p2 st1))"

definition p_file_comment :: "val \<Rightarrow> Parser \<Rightarrow> Parser" where
  "p_file_comment p2 st =
     (let st1 = check_that_current_element_matches_class_for_value File st
      in set_field ''comment'' p2 st1)"

definition p_file_license_info :: "val \<Rightarrow> Parser \<Rightarrow> exn + Parser" where
  "p_file_license_info p2 st =
     (let st1 = check_that_current_element_matches_class_for_value File st
      in if p2 = SpdxNone \<or> p2 = SpdxNoAssertion
         then Inr (set_field ''license_info_in_file'' p2 st1)
         else append_field ''license_info_in_file'' p2 st1)"

definition p_pkg_license_info_from_file :: "val \<Rightarrow> Parser \<Rightarrow> exn + Parser" where
  "p_pkg_license_info_from_file p2 st =
     (let st1 = check_that_current_element_matches_class_for_value Package st
      in if p2 = SpdxNone \<or> p2 = SpdxNoAssertion
         then Inr (set_field ''license_info_from_files'' p2 st1)
         else append_field ''license_info_from_files'' p2 st1)"

definition p_snippet_license_info :: "val \<Rightarrow> Parser \<Rightarrow> exn + Parser" where
  "p_snippet_license_info p2 st =
     (let st1 = check_that_current_element_matches_class_for_value Snippet st
      in if p2 = SpdxNone \<or> p2 = SpdxNoAssertion
         then Inr (set_field ''license_info_in_snippet'' p2 st1)
         else append_field ''license_info_in_snippet'' p2 st1)"

definition p_date :: "collaborators \<Rightarrow> element_class \<times> string \<Rightarrow> string \<Rightarrow> Parser \<Rightarrow> exn + Parser" where
  "p_date c rule p2 st =
     (case rule of (expected_class, key) \<Rightarrow>
        (let st1 = check_that_current_element_matches_class_for_value expected_class st
         in ebind (datetime_from_str c p2) (\<lambda>d. Inr (set_field key d st1))))"

definition p_checksum :: "collaborators \<Rightarrow> element_class \<Rightarrow> string \<Rightarrow> Parser \<Rightarrow> exn + Parser" where
  "p_checksum c expected_class p2 st =
     (let st1 = check_that_current_element_matches_class_for_value expected_class st;
          (msgs, checksum) = parse_checksum c p2;
          st2 = st1\<lparr>current_element := (current_element st1)
                      \<lparr>elem_logger := elem_logger (current_element st1) @ msgs\<rparr>\<rparr>
      in append_field ''checksums'' checksum st2)"

definition p_file_type :: "string \<Rightarrow> Parser \<Rightarrow> exn + Parser" where
  "p_file_type p2 st =
     (let st1 = check_that_current_element_matches_class_for_value File st
      in append_field ''file_type'' (VEnum ''FileType'' p2) st1)"

definition p_primary_package_purpose :: "string \<Rightarrow> Parser \<Rightarrow> Parser" where
  "p_primary_package_purpose p2 st =
     (let st1 = check_that_current_element_matches_class_for_value Package st
      in set_field ''primary_package_purpose'' (VEnum ''PackagePurpose'' (replace_hyphen p2)) st1)"

definition p_annotation_type :: "string \<Rightarrow> Parser \<Rightarrow> Parser" where
  "p_annotation_type p2 st =
     (let st1 = check_that_current_element_matches_class_for_value Annotation st
      in set_field ''annotation_type'' (VEnum ''AnnotationType'' p2) st1)"

definition p_pkg_external_refs :: "collaborators \<Rightarrow> string \<Rightarrow> val option \<Rightarrow> Parser \<Rightarrow> exn + Parser" where
  "p_pkg_external_refs c p2 p4 st =
     (let st1 = check_that_current_element_matches_class_for_value Package st
      in case split (CHR '' '') p2 of
           [category, reference_type, locator] \<Rightarrow>
             (let com = (case p4 of Some v \<Rightarrow> v | None \<Rightarrow> PyNone)
              in if \<not> ext_ref_categories c (replace_hyphen category)
                 then Inr (log_element (Str (''Invalid ExternalPackageRefCategory: '' @ category)) st1)
                 else
                   (case construct_or_raise_parsing_error c ''ExternalPackageRef''
                           [(''category'', VEnum ''ExternalPackageRefCategory'' (replace_hyphen category)),
                            (''reference_type'', VStr reference_type),
                            (''locator'', VStr locator),
                            (''comment'', com)] of
                      Inl (SPDXParsingError p) \<Rightarrow> Inr (log_element (as_entry p) st1)
                    | Inl e \<Rightarrow> Inl e
                    | Inr external_package_ref \<Rightarrow>
                        append_field ''external_references'' external_package_ref st1))
         | _ \<Rightarrow> Inl ValueError)"

definition p_pkg_verification_code :: "collaborators \<Rightarrow> string \<Rightarrow> Parser \<Rightarrow> exn + Parser" where
  "p_pkg_verification_code c p2 st =
     (let st1 = check_that_current_element_matches_class_for_value Package st
      in case verif_code_regex_match p2 of
           None \<Rightarrow> Inl AttributeError
         | Some (code, exc_files) \<Rightarrow>
             (let excluded_files =
                    (case exc_files of
                       None \<Rightarrow> PyNone
                     | Some g \<Rightarrow> if g \<noteq> [] then VList (map VStr (split (CHR '','') g)) else PyNone)
              in ebind (construct_direct c ''PackageVerificationCode''
                          [(''value'', VStr code), (''excluded_files'', excluded_files)]) (\<lambda>v.
                   Inr (set_field ''verification_code'' v st1))))"

definition p_pkg_files_analyzed :: "string \<Rightarrow> Parser \<Rightarrow> Parser" where
  "p_pkg_files_analyzed p2 st =
     (let st1 = check_that_current_element_matches_class_for_value Package st;
          st2 = (if p2 \<in> set [''false'', ''False'']
                 then set_field ''files_analyzed'' (VBool False) st1 else st1)
      in if p2 \<in> set [''true'', ''True'']
         then set_field ''files_analyzed'' (VBool True) st2 else st2)"

definition p_snippet_byte_range :: "string \<Rightarrow> Parser \<Rightarrow> exn + Parser" where
  "p_snippet_byte_range p2 st =
     (let st1 = check_that_current_element_matches_class_for_value Snippet st
      in if \<not> range_re_match (strip p2)
         then Inr (log_element (Str ''Value for SnippetByteRange doesn't match valid range pattern.'') st1)
         else
           ebind (py_int (hd (split (CHR '':'') p2))) (\<lambda>startpoint.
           ebind (py_int (last (split (CHR '':'') p2))) (\<lambda>endpoint.
             Inr (set_field ''byte_range'' (VTuple startpoint endpoint) st1))))"

definition p_snippet_line_range :: "string \<Rightarrow> Parser \<Rightarrow> exn + Parser" where
  "p_snippet_line_range p2 st =
     (let st1 = check_that_current_element_matches_class_for_value Snippet st
      in if \<not> range_re_match (strip p2)
         then Inr (log_element (Str ''Value for SnippetLineRange doesn't match valid range pattern.'') st1)
         else
           ebind (py_int (hd (split (CHR '':'') p2))) (\<lambda>startpoint.
           ebind (py_int (split (CHR '':'') p2 ! 1)) (\<lambda>endpoint.
             Inr (set_field ''line_range'' (VTuple startpoint endpoint) st1))))"

definition p_annotation_spdx_id :: "string \<Rightarrow> Parser \<Rightarrow> Parser" where
  "p_annotation_spdx_id p2 st = set_field ''spdx_id'' (VStr p2) st"

fun reduce_value :: "collaborators \<Rightarrow> value_attrib \<Rightarrow> Parser \<Rightarrow> exn + Parser" where
  "reduce_value c (text_value t v) st = p_value (text_tag_rule t) (reduce_text_or_line c v) st"
| "reduce_value c (file_comment v) st = Inr (p_file_comment (reduce_text_or_line c v) st)"
| "reduce_value c (line_value t s) st = p_value (line_tag_rule t) (VStr s) st"
| "reduce_value c (extr_lic_name v) st =
     p_value (ExtractedLicensingInfo, ''license_name'', Singular) (reduce_line_or_no_assertion v) st"
| "reduce_value c (line_or_sentinel_value t v) st =
     p_value (line_or_sentinel_tag_rule t) (reduce_line_or_no_assertion_or_none c v) st"
| "reduce_value c (license_value t v) st =
     ebind (reduce_license_or_no_assertion_or_none c v) (\<lambda>p2. p_value (license_tag_rule t) p2 st)"
| "reduce_value c (file_lics_info v) st =
     ebind (reduce_license_or_no_assertion_or_none c v) (\<lambda>p2. p_file_license_info p2 st)"
| "reduce_value c (pkg_lic_ff v) st =
     ebind (reduce_license_or_no_assertion_or_none c v) (\<lambda>p2. p_pkg_license_info_from_file p2 st)"
| "reduce_value c (snip_lics_info v) st =
     ebind (reduce_license_or_no_assertion_or_none c v) (\<lambda>p2. p_snippet_license_info p2 st)"
| "reduce_value c (actor_value t v) st =
     ebind (reduce_actor_or_no_assertion c v) (\<lambda>p2. p_value (actor_tag_rule t) p2 st)"
| "reduce_value c (date_value t s) st = p_date c (date_tag_rule t) s st"
| "reduce_value c (checksum_value t s) st = p_checksum c (checksum_tag_class t) s st"
| "reduce_value c (file_type s) st = p_file_type s st"
| "reduce_value c (primary_package_purpose s) st = Inr (p_primary_package_purpose s st)"
| "reduce_value c (annotation_type s) st = Inr (p_annotation_type s st)"
| "reduce_value c (pkg_ext_ref s com) st =
     p_pkg_external_refs c s (map_option (reduce_text_or_line c) com) st"
| "reduce_value c (pkg_verif s) st = p_pkg_verification_code c s st"
| "reduce_value c (pkg_files_analyzed s) st = Inr (p_pkg_files_analyzed s st)"
| "reduce_value c (snip_byte_range s) st = p_snippet_byte_range s st"
| "reduce_value c (snip_line_range s) st = p_snippet_line_range s st"
| "reduce_value c (annotation_spdx_id s) st = Inr (p_annotation_spdx_id s st)"

subsection \<open>The parse\<close>

fun reduce :: "collaborators \<Rightarrow> attrib \<Rightarrow> Parser \<Rightarrow> exn + Parser" where
  "reduce c (spdx_id s) st = Inr (p_spdx_id s st)"
| "reduce c (unknown_tag lineno) st = Inr (p_unknown_tag lineno st)"
| "reduce c (lics_list_ver s) st = Inr (p_license_list_version c s st)"
| "reduce c (creation_text t v) st =
     Inr (p_creation_info_value (creation_text_key t) (reduce_text_or_line c v) st)"
| "reduce c (creation_line t s) st = Inr (p_creation_info_value (creation_line_key t) (VStr s) st)"
| "reduce c (ext_doc_ref p2 p3 p4) st = p_external_document_ref c p2 p3 p4 st"
| "reduce c (creator s) st = p_creator c s st"
| "reduce c (created s) st = p_created c s st"
| "reduce c (creation_info_error r lineno) st =
     Inr (log_creation_info (StrLine (creation_error_text r) lineno) st)"
| "reduce c (start_tag a) st = reduce_start c a st"
| "reduce c (value_tag a) st = reduce_value c a st"
| "reduce c (extr_lic_id_or_value_error r lineno) st =
     Inr (log_element (StrLine (extracted_licensing_info_error_text r) lineno) st)"
| "reduce c (file_value_error r lineno) st = Inr (log_element (StrLine (file_error_text r) lineno) st)"
| "reduce c (package_value_error r lineno) st =
     Inr (log_element (StrLine (package_error_text r) lineno) st)"
| "reduce c (snippet_value_error r lineno) st =
     Inr (log_element (StrLine (snippet_error_text r) lineno) st)"
| "reduce c (annotation_value_error r lineno) st =
     Inr (log_element (StrLine (annotation_error_text r) lineno) st)"

text \<open>\<open>self.yacc.parse(text, lexer=self.lex)\<close>: the handlers run in the order of the reductions;
  an exception that a handler does not catch ends the parse.\<close>

fun yacc_parse :: "collaborators \<Rightarrow> attrib list \<Rightarrow> Parser \<Rightarrow> exn + Parser" where
  "yacc_parse c [] st = Inr st"
| "yacc_parse c (a # text) st = ebind (reduce c a st) (yacc_parse c text)"

text \<open>
  The state of the parser when \<open>parse\<close> reaches its second
  \<open>raise_parsing_error_if_logger_has_messages\<close>: the input is consumed, the open element is
  finalized, and the logger of the creation info is merged into the logger of the document.
\<close>

definition merge_creation_info_logger :: "Parser \<Rightarrow> Parser" where
  "merge_creation_info_logger st =
     (case raise_parsing_error_if_logger_has_messages (creation_info_logger st) (Some ''CreationInfo'') of
        Inl (SPDXParsingError p) \<Rightarrow> st\<lparr>logger := append (logger st) (as_entry p)\<rparr>
      | _ \<Rightarrow> st)"

definition end_of_input :: "collaborators \<Rightarrow> attrib list \<Rightarrow> exn + Parser" where
  "end_of_input c text =
     ebind (yacc_parse c text Parser_init) (\<lambda>st1.
     ebind (construct_current_element c st1) (\<lambda>st2.
       Inr (merge_creation_info_logger st2)))"

definition parse :: "collaborators \<Rightarrow> attrib list \<Rightarrow> exn + val" where
  "parse c text =
     ebind (end_of_input c text) (\<lambda>st.
     ebind (raise_parsing_error_if_logger_has_messages (logger st) None) (\<lambda>u.
     ebind (construct_or_raise_parsing_error c ''CreationInfo'' (creation_info st)) (\<lambda>creation_info_obj.
       construct_or_raise_parsing_error c ''Document''
         (AList.update ''creation_info'' creation_info_obj (elements_build st)))))"


subsection \<open>Notions used in the statements about the tag/value parser\<close>

text \<open>The class a value tag belongs to, and the key of \<open>current_element\<close> its handler writes.\<close>

fun tag_class :: "value_attrib \<Rightarrow> element_class" where
  "tag_class (text_value t v) = fst (text_tag_rule t)"
| "tag_class (file_comment v) = File"
| "tag_class (line_value t s) = fst (line_tag_rule t)"
| "tag_class (extr_lic_name v) = ExtractedLicensingInfo"
| "tag_class (line_or_sentinel_value t v) = fst (line_or_sentinel_tag_rule t)"
| "tag_class (license_value t v) = fst (license_tag_rule t)"
| "tag_class (file_lics_info v) = File"
| "tag_class (pkg_lic_ff v) = Package"
| "tag_class (snip_lics_info v) = Snippet"
| "tag_class (actor_value t v) = fst (actor_tag_rule t)"
| "tag_class (date_value t s) = fst (date_tag_rule t)"
| "tag_class (checksum_value t s) = checksum_tag_class t"
| "tag_class (file_type s) = File"
| "tag_class (primary_package_purpose s) = Package"
| "tag_class (annotation_type s) = Annotation"
| "tag_class (pkg_ext_ref s com) = Package"
| "tag_class (pkg_verif s) = Package"
| "tag_class (pkg_files_analyzed s) = Package"
| "tag_class (snip_byte_range s) = Snippet"
| "tag_class (snip_line_range s) = Snippet"
| "tag_class (annotation_spdx_id s) = Annotation"

fun tag_key :: "value_attrib \<Rightarrow> string" where
  "tag_key (text_value t v) = fst (snd (text_tag_rule t))"
| "tag_key (file_comment v) = ''comment''"
| "tag_key (line_value t s) = fst (snd (line_tag_rule t))"
| "tag_key (extr_lic_name v) = ''license_name''"
| "tag_key (line_or_sentinel_value t v) = fst (snd (line_or_sentinel_tag_rule t))"
| "tag_key (license_value t v) = fst (snd (license_tag_rule t))"
| "tag_key (file_lics_info v) = ''license_info_in_file''"
| "tag_key (pkg_lic_ff v) = ''license_info_from_files''"
| "tag_key (snip_lics_info v) = ''license_info_in_snippet''"
| "tag_key (actor_value t v) = fst (snd (actor_tag_rule t))"
| "tag_key (date_value t s) = snd (date_tag_rule t)"
| "tag_key (checksum_value t s) = ''checksums''"
| "tag_key (file_type s) = ''file_type''"
| "tag_key (primary_package_purpose s) = ''primary_package_purpose''"
| "tag_key (annotation_type s) = ''annotation_type''"
| "tag_key (pkg_ext_ref s com) = ''external_references''"
| "tag_key (pkg_verif s) = ''verification_code''"
| "tag_key (pkg_files_analyzed s) = ''files_analyzed''"
| "tag_key (snip_byte_range s) = ''byte_range''"
| "tag_key (snip_line_range s) = ''line_range''"
| "tag_key (annotation_spdx_id s) = ''spdx_id''"

definition is_annotation_spdx_id :: "value_attrib \<Rightarrow> bool" where
  "is_annotation_spdx_id a = (case a of annotation_spdx_id s \<Rightarrow> True | _ \<Rightarrow> False)"

text \<open>
  What the handler of a value tag of class \<open>C\<close> and key \<open>k\<close> may change: the document
  logger gets the scope error when \<open>C\<close> is not the open class, the logger of the element may
  get further messages, the field \<open>k\<close> may be written; nothing else changes.
\<close>

definition frame :: "element_class \<Rightarrow> string \<Rightarrow> Parser \<Rightarrow> Parser \<Rightarrow> bool" where
  "frame C k st st' =
     (logger st' = (if elem_class (current_element st) = Some C then logger st
                    else logger st @ [not_in_scope C])
      \<and> elem_class (current_element st') = elem_class (current_element st)
      \<and> (\<forall>k'. k' \<noteq> k \<longrightarrow> map_of (elem_fields (current_element st')) k'
                              = map_of (elem_fields (current_element st)) k')
      \<and> (\<exists>ms. elem_logger (current_element st') = elem_logger (current_element st) @ ms)
      \<and> creation_info st' = creation_info st
      \<and> creation_info_logger st' = creation_info_logger st
      \<and> elements_build st' = elements_build st
      \<and> element_stack st' = element_stack st)"

text \<open>
  The properties every reduction keeps: the document logger only grows, and the creation info
  has the key \<open>spdx_id\<close> exactly when an SPDXID token was reduced.
\<close>

definition grows :: "Parser \<Rightarrow> Parser \<Rightarrow> bool" where
  "grows st st' = (\<exists>ms. logger st' = logger st @ ms)"

definition is_spdx_id :: "attrib \<Rightarrow> bool" where
  "is_spdx_id a = (case a of spdx_id s \<Rightarrow> True | _ \<Rightarrow> False)"

definition document_id_set :: "Parser \<Rightarrow> bool" where
  "document_id_set st = (map_of (creation_info st) ''spdx_id'' \<noteq> None)"

text \<open>
  Collaborators for running the parser on concrete inputs: a typed construction that accepts
  every field mapping and returns the object with these attributes, and leaf parsers that
  wrap the text they are given.
\<close>

definition accept_all :: collaborators where
  "accept_all = \<lparr>construct = (\<lambda>name args. Inr (VObj name args)),
     str_from_text = VStr,
     license_parse = (\<lambda>s. Inr (VObj ''LicenseExpression'' [(''text'', VStr s)])),
     parse_actor = (\<lambda>s. Inr (VObj ''Actor'' [(''text'', VStr s)])),
     datetime_from_str = (\<lambda>s. Inr (VObj ''datetime'' [(''text'', VStr s)])),
     Version_from_string = (\<lambda>s. Inr (VObj ''Version'' [(''text'', VStr s)])),
     parse_checksum = (\<lambda>s. ([], VObj ''Checksum'' [(''text'', VStr s)])),
     relationship_types = (\<lambda>s. False), ext_ref_categories = (\<lambda>s. True)\<rparr>"

text \<open>
  Modelled from the spec: typed construction fails on a "missing required field". The creation
  info has "spdx id, name, namespace, version, data license, creators, created timestamp" and
  three optional fields; "File requires a name, Package requires a name". The messages name the
  missing fields.
\<close>

definition required_fields :: "string \<Rightarrow> string list" where
  "required_fields name =
     (if name = ''CreationInfo''
      then [''spdx_id'', ''name'', ''document_namespace'', ''spdx_version'', ''data_license'',
            ''creators'', ''created'']
      else if name = ''File'' \<or> name = ''Package'' then [''name'']
      else [])"

definition checking_required_fields :: collaborators where
  "checking_required_fields = accept_all\<lparr>construct := (\<lambda>name args.
      (let missing = filter (\<lambda>k. map_of args k = None) (required_fields name)
       in if missing = [] then Inr (VObj name args) else Inl (map Str missing)))\<rparr>"

text \<open>
  A typed construction that checks the required fields and, in addition, rejects every
  Document: with it \<open>parse\<close> runs through the branch where the construction of the document
  fails.
\<close>

definition rejecting_document :: collaborators where
  "rejecting_document = checking_required_fields\<lparr>construct := (\<lambda>name args.
      if name = ''Document'' then Inl [Str ''rejected'']
      else construct checking_required_fields name args)\<rparr>"

text \<open>
  An input that gives every required field of the creation info, and the field mapping of the
  creation info at its end.
\<close>

definition complete_creation_info_input :: "attrib list" where
  "complete_creation_info_input =
     [creation_line DOC_VERSION ''SPDX-2.3'', creation_line DOC_LICENSE ''CC0-1.0'',
      spdx_id ''SPDXRef-DOCUMENT'', creation_line DOC_NAME ''doc'',
      creation_line DOC_NAMESPACE ''https://example.com/doc'',
      creator ''Tool: t'', created ''2020-01-01T00:00:00Z'']"

definition complete_creation_info :: dict where
  "complete_creation_info =
     [(''spdx_version'', VStr ''SPDX-2.3''), (''data_license'', VStr ''CC0-1.0''),
      (''spdx_id'', VStr ''SPDXRef-DOCUMENT''), (''name'', VStr ''doc''),
      (''document_namespace'', VStr ''https://example.com/doc''),
      (''creators'', VList [VObj ''Actor'' [(''text'', VStr ''Tool: t'')]]),
      (''created'', VObj ''datetime'' [(''text'', VStr ''2020-01-01T00:00:00Z'')])]"

text \<open>The parser after \<open>PackageName: P\<close>, and the input of the implicit-containment example.\<close>

definition package_open :: Parser where
  "package_open = Parser_init\<lparr>current_element :=
      \<lparr>elem_class = Some Package, elem_logger = [], elem_fields = [(''name'', VStr ''P'')]\<rparr>\<rparr>"

definition implicit_containment_input :: "attrib list" where
  "implicit_containment_input =
     [spdx_id ''D'', start_tag (package_name ''P''), spdx_id ''SPDXRef-P'',
      start_tag (file_name ''f.c''), spdx_id ''SPDXRef-f'', value_tag (file_type ''SOURCE'')]"


section \<open>Properties of the mapping-shaped parser\<close>

lemma ebind_simps [simp]: "ebind (Inl e) f = Inl e" "ebind (Inr x) f = f x"
  by (simp_all add: ebind_def)

subsection \<open>Malformed relationship types\<close>

lemma parse_relationship_type_fails:
  "parse_relationship_type members v = Inl e \<Longrightarrow> \<exists>m. e = SPDXParsingError (PList [m])"
  by (auto simp: parse_relationship_type_def transform_json_str_to_enum_name_def
      RelationshipType_getitem_def split: jv.splits if_splits)

lemma parse_relationship_fails:
  assumes "parse_relationship_type members
             (case map_of kvs ''relationshipType'' of None \<Rightarrow> JNone | Some v \<Rightarrow> v) = Inl e"
  shows "\<exists>m. parse_relationship members (JDict kvs) = Inl (SPDXParsingError (PList [m]))"
proof -
  from parse_relationship_type_fails[OF assms] obtain m where "e = SPDXParsingError (PList [m])"
    by blast
  with assms show ?thesis
    by (simp add: parse_relationship_def try_parse_required_field_append_logger_when_failing_def
        append_all_def has_messages_def)
qed

lemma type_fails_parse_relationship:
  "type_fails members d \<Longrightarrow> \<exists>m. parse_relationship members d = Inl (SPDXParsingError (PList [m]))"
  unfolding type_fails_def
  by (cases d) (auto split: sum.splits dest: parse_relationship_fails)

text \<open>
  The loop itself loses nothing: for \<open>N\<close> entries whose type does not parse, the local logger
  holds \<open>N\<close> messages when the loop ends.
\<close>

lemma parse_relationships_loop_all_fail:
  "\<forall>d\<in>set ds. type_fails members d \<Longrightarrow>
   \<exists>ms. length ms = length ds \<and> parse_relationships_loop members ds lg acc = Inr (lg @ ms, acc)"
proof (induction ds arbitrary: lg)
  case Nil
  then show ?case by simp
next
  case (Cons d ds)
  from Cons.prems obtain m where m: "parse_relationship members d = Inl (SPDXParsingError (PList [m]))"
    using type_fails_parse_relationship by fastforce
  from Cons.IH[of "lg @ [m]"] Cons.prems obtain ms where
    "length ms = length ds"
    "parse_relationships_loop members ds (lg @ [m]) acc = Inr ((lg @ [m]) @ ms, acc)"
    by auto
  then show ?case using m
    by (intro exI[of _ "m # ms"]) (simp add: append_all_def)
qed

text \<open>
  The raise after the loop passes the boolean \<open>logger.has_messages()\<close>: the failure of
  \<open>parse_relationships\<close> carries \<open>True\<close> and none of the messages, whatever \<open>N \<ge> 1\<close> is, and
  \<open>parse_all_relationships\<close>, which iterates over that payload, ends in a \<open>TypeError\<close>.
\<close>

lemma parse_relationships_all_fail:
  assumes "ds \<noteq> []" "\<forall>d\<in>set ds. type_fails members d"
  shows "parse_relationships members (JList ds) = Inl (SPDXParsingError (PBool True))"
proof -
  from parse_relationships_loop_all_fail[OF assms(2), of "[]" "[]"] obtain ms where
    "length ms = length ds" "parse_relationships_loop members ds [] [] = Inr (ms, [])" by auto
  with assms(1) show ?thesis
    by (auto simp: parse_relationships_def has_messages_def)
qed

lemma parse_all_relationships_all_fail:
  assumes "ds \<noteq> []" "\<forall>d\<in>set ds. type_fails members d"
    and "map_of kvs ''relationships'' = Some (JList ds)"
  shows "parse_all_relationships members (JDict kvs) = Inl TypeError"
  using parse_relationships_all_fail[OF assms(1,2)] assms(1,3)
  by (simp add: parse_all_relationships_def try_phase_def append_all_def)

text \<open>
  Claim C3. For a list of \<open>N\<close> relationship entries whose \<open>relationshipType\<close> does not parse,
  the failure raised by the relationship-parsing stage should expose the \<open>N\<close> messages. At
  two entries with the types \<open>bogus\<close> and \<open>nope\<close> the loop has collected both messages, but
  \<open>parse_relationships\<close> raises an \<open>SPDXParsingError\<close> whose payload is the boolean \<open>True\<close>,
  and \<open>parse_all_relationships\<close> ends in a \<open>TypeError\<close>: neither exposes a message.
\<close>

theorem parse_relationships_loses_messages:
  "parse_relationships_loop (\<lambda>_. False) [malformed ''bogus'', malformed ''nope''] [] [] =
     Inr ([StrRepr ''Error while parsing relationship: ''
             [Str ''RelationshipType bogus is not valid.''],
           StrRepr ''Error while parsing relationship: ''
             [Str ''RelationshipType nope is not valid.'']], [])
   \<and> parse_relationships (\<lambda>_. False) (JList [malformed ''bogus'', malformed ''nope'']) =
       Inl (SPDXParsingError (PBool True))
   \<and> parse_all_relationships (\<lambda>_. False)
       (JDict [(''relationships'', JList [malformed ''bogus'', malformed ''nope''])]) =
       Inl TypeError"
  by (simp add: parse_relationships_def parse_relationship_def malformed_def
      parse_relationship_type_def transform_json_str_to_enum_name_def upper_char_def
      RelationshipType_getitem_def try_parse_required_field_append_logger_when_failing_def
      append_all_def has_messages_def get_messages_def parse_all_relationships_def try_phase_def)

subsection \<open>Implied edges and duplicates\<close>

lemma Relationship_init_str [simp]:
  "Relationship_init (JStr a) t (JStr b) JNone = Inr (edge a t b)"
  "Relationship_init (JStr a) t (JStr b) (JStr c) = Inr ((edge a t b)\<lparr>comment := Some c\<rparr>)"
  by (simp_all add: Relationship_init_def edge_def)

lemma py_get_file_dict [simp]:
  "py_get (file_dict fd) ''SPDXID'' = Inr (JStr (fst fd))"
  "py_get (file_dict fd) ''fileDependencies'' = Inr (JList (map JStr (snd fd)))"
  by (simp_all add: file_dict_def)

lemma py_get_package_dict [simp]:
  "py_get (package_dict pd) ''SPDXID'' = Inr (JStr (fst pd))"
  "py_get (package_dict pd) ''hasFiles'' = Inr (JList (map JStr (snd pd)))"
  by (simp_all add: package_dict_def)

text \<open>A DESCRIBES or CONTAINS candidate never leaves the table of inverse types.\<close>

lemma check_edge_total:
  "t = DESCRIBES \<or> t = CONTAINS \<Longrightarrow> \<exists>b. check_if_relationship_exists (edge a t x) earlier = Inr b"
  by (auto simp: check_if_relationship_exists_def convert_relationship_def edge_def Let_def)

lemma parse_file_dependencies_inner_all:
  "parse_file_dependencies_inner (JStr f) (map JStr deps) lg acc =
     Inr (lg, acc @ map (\<lambda>d. edge d DEPENDENCY_OF f) deps)"
  by (induction deps arbitrary: acc) simp_all

lemma parse_file_dependencies_loop_all:
  "parse_file_dependencies_loop (map file_dict files) lg acc =
     Inr (lg, acc @ concat (map (\<lambda>fd. map (\<lambda>d. edge d DEPENDENCY_OF (fst fd)) (snd fd)) files))"
proof (induction files arbitrary: acc)
  case Nil
  then show ?case by simp
next
  case (Cons fd files)
  show ?case
    by (cases "snd fd = []") (simp_all add: parse_file_dependencies_inner_all Cons.IH)
qed

lemma parse_file_dependencies_all:
  "parse_file_dependencies (JList (map file_dict files)) =
     Inr (concat (map (\<lambda>fd. map (\<lambda>d. edge d DEPENDENCY_OF (fst fd)) (snd fd)) files))"
  by (simp add: parse_file_dependencies_def parse_file_dependencies_loop_all has_messages_def)

lemma parse_document_describes_loop_filter:
  "parse_document_describes_loop (JStr doc) (map JStr ids) earlier lg acc =
     Inr (lg, acc @ filter (is_new earlier) (map (edge doc DESCRIBES) ids))"
proof (induction ids arbitrary: acc)
  case Nil
  then show ?case by simp
next
  case (Cons i ids)
  obtain b where b: "check_if_relationship_exists (edge doc DESCRIBES i) earlier = Inr b"
    using check_edge_total[of DESCRIBES] by blast
  show ?case using b by (cases b) (simp_all add: Cons.IH is_new_def)
qed

lemma parse_document_describes_filter:
  "parse_document_describes (JStr doc) (JList (map JStr ids)) earlier =
     Inr (filter (is_new earlier) (map (edge doc DESCRIBES) ids))"
  by (simp add: parse_document_describes_def parse_document_describes_loop_filter has_messages_def)

lemma parse_has_files_inner_filter:
  "parse_has_files_inner (JStr p) (map JStr fs) earlier lg acc =
     Inr (lg, acc @ filter (is_new earlier) (map (edge p CONTAINS) fs))"
proof (induction fs arbitrary: acc)
  case Nil
  then show ?case by simp
next
  case (Cons f fs)
  obtain b where b: "check_if_relationship_exists (edge p CONTAINS f) earlier = Inr b"
    using check_edge_total[of CONTAINS] by blast
  show ?case using b by (cases b) (simp_all add: Cons.IH is_new_def)
qed

lemma parse_has_files_loop_filter:
  "parse_has_files_loop (map package_dict pkgs) earlier lg acc =
     Inr (lg, acc @ concat (map (\<lambda>pd. filter (is_new earlier)
                                         (map (edge (fst pd) CONTAINS) (snd pd))) pkgs))"
proof (induction pkgs arbitrary: acc)
  case Nil
  then show ?case by simp
next
  case (Cons pd pkgs)
  show ?case
    by (cases "snd pd = []") (simp_all add: parse_has_files_inner_filter Cons.IH)
qed

lemma parse_has_files_filter:
  "parse_has_files (JList (map package_dict pkgs)) earlier =
     Inr (concat (map (\<lambda>pd. filter (is_new earlier) (map (edge (fst pd) CONTAINS) (snd pd))) pkgs))"
  by (simp add: parse_has_files_def parse_has_files_loop_filter has_messages_def)

text \<open>
  Claim C4, as stated, fails in its second half: a \<open>documentDescribes\<close> list that names \<open>A\<close>
  twice yields two DESCRIBES edges, and a \<open>hasFiles\<close> list that names \<open>F\<close> twice yields two
  CONTAINS edges. The candidates are tested against the relationships earlier by the earlier
  phases only, never against the list the phase is building.
\<close>

theorem repeated_entries_not_suppressed:
  "parse_document_describes (JStr ''DOC'') (JList [JStr ''A'', JStr ''A'']) [] =
     Inr [edge ''DOC'' DESCRIBES ''A'', edge ''DOC'' DESCRIBES ''A'']
   \<and> parse_has_files
       (JList [JDict [(''SPDXID'', JStr ''P''), (''hasFiles'', JList [JStr ''F'', JStr ''F''])]]) [] =
     Inr [edge ''P'' CONTAINS ''F'', edge ''P'' CONTAINS ''F'']"
  by (simp add: parse_document_describes_def parse_has_files_def has_messages_def
      check_if_relationship_exists_def ignore_any_comments_in_relationship_list_def
      convert_relationship_def edge_def)

text \<open>
  Claim C4, amended. Every \<open>fileDependencies\<close> entry yields its DEPENDENCY_OF edge, repeated
  or not, within one file or across files. Every \<open>documentDescribes\<close> entry and every
  \<open>hasFiles\<close> entry yields its DESCRIBES (respectively CONTAINS) edge unless the membership
  test finds that edge among the relationships that existed before the phase started;
  repeated entries of one list are not suppressed against each other.
\<close>

theorem implied_edges_suppressed_against_existing_only:
  "parse_file_dependencies (JList (map file_dict files)) =
     Inr (concat (map (\<lambda>fd. map (\<lambda>d. edge d DEPENDENCY_OF (fst fd)) (snd fd)) files))
   \<and> parse_document_describes (JStr doc) (JList (map JStr ids)) earlier =
     Inr (filter (is_new earlier) (map (edge doc DESCRIBES) ids))
   \<and> parse_has_files (JList (map package_dict pkgs)) existing =
     Inr (concat (map (\<lambda>pd. filter (is_new existing)
                               (map (edge (fst pd) CONTAINS) (snd pd))) pkgs))"
  using parse_file_dependencies_all parse_document_describes_filter parse_has_files_filter
  by blast

theorem implied_edges_suppressed_against_existing_only_witness:
  "parse_file_dependencies (JList [file_dict (''F1'', [''X'', ''X'']), file_dict (''F2'', [''X''])]) =
     Inr [edge ''X'' DEPENDENCY_OF ''F1'', edge ''X'' DEPENDENCY_OF ''F1'',
          edge ''X'' DEPENDENCY_OF ''F2'']
   \<and> parse_document_describes (JStr ''DOC'') (JList [JStr ''A'', JStr ''B'', JStr ''B''])
        [(edge ''DOC'' DESCRIBES ''A'')\<lparr>comment := Some ''c''\<rparr>] =
     Inr [edge ''DOC'' DESCRIBES ''B'', edge ''DOC'' DESCRIBES ''B'']
   \<and> parse_has_files (JList [package_dict (''P'', [''F'', ''G'', ''G''])])
        [edge ''F'' CONTAINED_BY ''P''] =
     Inr [edge ''P'' CONTAINS ''G'', edge ''P'' CONTAINS ''G'']"
  using implied_edges_suppressed_against_existing_only
    [of "[(''F1'', [''X'', ''X'']), (''F2'', [''X''])]" "''DOC''" "[''A'', ''B'', ''B'']"
      "[(edge ''DOC'' DESCRIBES ''A'')\<lparr>comment := Some ''c''\<rparr>]" "[(''P'', [''F'', ''G'', ''G''])]"
      "[edge ''F'' CONTAINED_BY ''P'']"]
  by (simp add: is_new_def check_if_relationship_exists_def
      ignore_any_comments_in_relationship_list_def convert_relationship_def edge_def)

subsection \<open>The duplicate-membership test\<close>

lemma ignore_comment_eq:
  "\<lparr>spdx_element_id = spdx_element_id r, relationship_type = relationship_type r,
    related_spdx_element_id = related_spdx_element_id r, comment = None\<rparr> = without_comment r"
  by (cases r) (simp add: without_comment_def)

lemma set_ignore_any_comments:
  "set (ignore_any_comments_in_relationship_list earlier) = without_comment ` set earlier"
  by (simp add: ignore_any_comments_in_relationship_list_def ignore_comment_eq)

lemma check_if_relationship_exists_no_comment:
  assumes "comment r = None"
    and "relationship_type r \<in> {DESCRIBES, DESCRIBED_BY, CONTAINS, CONTAINED_BY}"
  shows "check_if_relationship_exists r earlier = Inr (duplicate_of_existing r earlier)"
proof -
  have r: "without_comment r = r" using assms(1) by (simp add: without_comment_def)
  obtain t where t: "inverse_type (relationship_type r) = Some t"
    "convert_relationship_types (relationship_type r) = Inr t"
    using assms(2) by auto
  define i where "i = \<lparr>spdx_element_id = related_spdx_element_id r, relationship_type = t,
                       related_spdx_element_id = spdx_element_id r, comment = comment r\<rparr>"
  have i: "without_comment i = i" using assms(1) by (simp add: without_comment_def i_def)
  have si: "semantic_inverse r = Some i" "convert_relationship r = Inr i"
    using t by (simp_all add: semantic_inverse_def convert_relationship_def i_def)
  have "(r \<in> without_comment ` set earlier) = (\<exists>e\<in>set earlier. without_comment e = r)"
       "(i \<in> without_comment ` set earlier) = (\<exists>e\<in>set earlier. without_comment e = i)"
    by auto
  then show ?thesis
    by (simp add: check_if_relationship_exists_def Let_def set_ignore_any_comments si
        duplicate_of_existing_def r i)
qed

lemma parse_relationship_dict:
  "parse_relationship members (relationship_dict a ''DESCRIBES'' b c) =
     Inr ((edge a DESCRIBES b)\<lparr>comment := Some c\<rparr>)"
  "parse_relationship members (relationship_dict a ''DESCRIBED_BY'' b c) =
     Inr ((edge a DESCRIBED_BY b)\<lparr>comment := Some c\<rparr>)"
  "parse_relationship members (relationship_dict a ''CONTAINS'' b c) =
     Inr ((edge a CONTAINS b)\<lparr>comment := Some c\<rparr>)"
  "parse_relationship members (relationship_dict a ''CONTAINED_BY'' b c) =
     Inr ((edge a CONTAINED_BY b)\<lparr>comment := Some c\<rparr>)"
  by (simp_all add: parse_relationship_def relationship_dict_def parse_relationship_type_def
      transform_json_str_to_enum_name_def upper_char_def RelationshipType_getitem_def
      try_parse_required_field_append_logger_when_failing_def has_messages_def
      try_construction_raise_parsing_error_Relationship_def)

lemma explicit_describes:
  "parse_all_relationships members
     (JDict [(''SPDXID'', JStr a), (''relationships'', JList [relationship_dict a ''DESCRIBES'' b c]),
             (''documentDescribes'', JList [JStr b])]) =
   Inr [(edge a DESCRIBES b)\<lparr>comment := Some c\<rparr>]"
  by (simp add: parse_all_relationships_def try_phase_def parse_relationships_def
      parse_relationship_dict has_messages_def parse_document_describes_def
      check_if_relationship_exists_def ignore_any_comments_in_relationship_list_def edge_def)

lemma explicit_described_by:
  "parse_all_relationships members
     (JDict [(''SPDXID'', JStr a),
             (''relationships'', JList [relationship_dict b ''DESCRIBED_BY'' a c]),
             (''documentDescribes'', JList [JStr b])]) =
   Inr [(edge b DESCRIBED_BY a)\<lparr>comment := Some c\<rparr>]"
  by (simp add: parse_all_relationships_def try_phase_def parse_relationships_def
      parse_relationship_dict has_messages_def parse_document_describes_def
      check_if_relationship_exists_def ignore_any_comments_in_relationship_list_def edge_def
      convert_relationship_def)

lemma explicit_contains:
  "parse_all_relationships members
     (JDict [(''relationships'', JList [relationship_dict p ''CONTAINS'' f c]),
             (''packages'', JList [package_dict (p, [f])])]) =
   Inr [(edge p CONTAINS f)\<lparr>comment := Some c\<rparr>]"
  by (simp add: parse_all_relationships_def try_phase_def parse_relationships_def
      parse_relationship_dict has_messages_def parse_has_files_def package_dict_def
      check_if_relationship_exists_def ignore_any_comments_in_relationship_list_def edge_def)

lemma explicit_contained_by:
  "parse_all_relationships members
     (JDict [(''relationships'', JList [relationship_dict f ''CONTAINED_BY'' p c]),
             (''packages'', JList [package_dict (p, [f])])]) =
   Inr [(edge f CONTAINED_BY p)\<lparr>comment := Some c\<rparr>]"
  by (simp add: parse_all_relationships_def try_phase_def parse_relationships_def
      parse_relationship_dict has_messages_def parse_has_files_def package_dict_def
      check_if_relationship_exists_def ignore_any_comments_in_relationship_list_def edge_def
      convert_relationship_def)

text \<open>
  A candidate of a type without an inverse that is not found directly makes the test raise
  \<open>KeyError\<close>: it returns neither true nor false.
\<close>

lemma check_if_relationship_exists_KeyError:
  "check_if_relationship_exists (edge ''A'' DEPENDENCY_OF ''B'') [] = Inl KeyError"
  by (simp add: edge_def check_if_relationship_exists_def
      ignore_any_comments_in_relationship_list_def convert_relationship_def)

text \<open>
  Claim C5, as stated, fails: the comments are ignored on the side of the existing
  relationships only. The candidate \<open>(A, DESCRIBES, B)\<close> with the comment \<open>c\<close> equals the
  existing \<open>(A, DESCRIBES, B)\<close> once comments are ignored on both sides, yet the test returns
  \<open>False\<close>.
\<close>

theorem check_if_relationship_exists_keeps_candidate_comment:
  "duplicate_of_existing ((edge ''A'' DESCRIBES ''B'')\<lparr>comment := Some ''c''\<rparr>)
     [edge ''A'' DESCRIBES ''B'']
   \<and> check_if_relationship_exists ((edge ''A'' DESCRIBES ''B'')\<lparr>comment := Some ''c''\<rparr>)
        [edge ''A'' DESCRIBES ''B''] = Inr False"
  by (simp add: duplicate_of_existing_def without_comment_def edge_def
      check_if_relationship_exists_def ignore_any_comments_in_relationship_list_def
      convert_relationship_def)

text \<open>
  Claim C5, amended. For a candidate that carries no comment and whose type is DESCRIBES,
  DESCRIBED_BY, CONTAINS or CONTAINED_BY (every caller builds such a candidate), the test
  returns true if and only if the candidate, or its semantic inverse, equals some existing
  relationship with that relationship's comment ignored. Consequently an explicit
  \<open>(a, DESCRIBES, b)\<close> with any comment plus a \<open>documentDescribes\<close> listing \<open>b\<close> yields that
  one edge only, an explicit \<open>(b, DESCRIBED_BY, a)\<close> suppresses the implied
  \<open>(a, DESCRIBES, b)\<close>, and the same holds for CONTAINS and CONTAINED_BY with \<open>hasFiles\<close>.
\<close>

theorem check_if_relationship_exists_comment_free_candidate:
  "(comment r = None \<and> relationship_type r \<in> {DESCRIBES, DESCRIBED_BY, CONTAINS, CONTAINED_BY}
      \<longrightarrow> check_if_relationship_exists r earlier = Inr (duplicate_of_existing r earlier))
   \<and> parse_all_relationships members
       (JDict [(''SPDXID'', JStr a),
               (''relationships'', JList [relationship_dict a ''DESCRIBES'' b c]),
               (''documentDescribes'', JList [JStr b])]) =
     Inr [(edge a DESCRIBES b)\<lparr>comment := Some c\<rparr>]
   \<and> parse_all_relationships members
       (JDict [(''SPDXID'', JStr a),
               (''relationships'', JList [relationship_dict b ''DESCRIBED_BY'' a c]),
               (''documentDescribes'', JList [JStr b])]) =
     Inr [(edge b DESCRIBED_BY a)\<lparr>comment := Some c\<rparr>]
   \<and> parse_all_relationships members
       (JDict [(''relationships'', JList [relationship_dict a ''CONTAINS'' b c]),
               (''packages'', JList [package_dict (a, [b])])]) =
     Inr [(edge a CONTAINS b)\<lparr>comment := Some c\<rparr>]
   \<and> parse_all_relationships members
       (JDict [(''relationships'', JList [relationship_dict b ''CONTAINED_BY'' a c]),
               (''packages'', JList [package_dict (a, [b])])]) =
     Inr [(edge b CONTAINED_BY a)\<lparr>comment := Some c\<rparr>]"
  using check_if_relationship_exists_no_comment explicit_describes explicit_described_by
    explicit_contains explicit_contained_by
  by blast

theorem check_if_relationship_exists_comment_free_candidate_witness:
  "comment (edge ''A'' DESCRIBES ''B'') = None
   \<and> relationship_type (edge ''A'' DESCRIBES ''B'')
        \<in> {DESCRIBES, DESCRIBED_BY, CONTAINS, CONTAINED_BY}
   \<and> check_if_relationship_exists (edge ''A'' DESCRIBES ''B'')
        [(edge ''B'' DESCRIBED_BY ''A'')\<lparr>comment := Some ''c''\<rparr>] = Inr True
   \<and> check_if_relationship_exists (edge ''A'' DESCRIBES ''B'')
        [(edge ''A'' DESCRIBED_BY ''B'')\<lparr>comment := Some ''c''\<rparr>] = Inr False"
  using check_if_relationship_exists_comment_free_candidate
    [of "edge ''A'' DESCRIBES ''B''" "[(edge ''B'' DESCRIBED_BY ''A'')\<lparr>comment := Some ''c''\<rparr>]"]
    check_if_relationship_exists_comment_free_candidate
    [of "edge ''A'' DESCRIBES ''B''" "[(edge ''A'' DESCRIBED_BY ''B'')\<lparr>comment := Some ''c''\<rparr>]"]
  by (simp add: duplicate_of_existing_def semantic_inverse_def without_comment_def edge_def)

section \<open>Properties of the tag/value parser\<close>

subsection \<open>What a value-tag handler changes\<close>

lemma ebind_Inr_iff: "ebind r f = Inr y \<longleftrightarrow> (\<exists>x. r = Inr x \<and> f x = Inr y)"
  by (cases r) simp_all

lemma check_simps [simp]:
  "logger (check_that_current_element_matches_class_for_value C st) =
     (if elem_class (current_element st) = Some C then logger st else logger st @ [not_in_scope C])"
  "current_element (check_that_current_element_matches_class_for_value C st) = current_element st"
  "creation_info (check_that_current_element_matches_class_for_value C st) = creation_info st"
  "creation_info_logger (check_that_current_element_matches_class_for_value C st) = creation_info_logger st"
  "elements_build (check_that_current_element_matches_class_for_value C st) = elements_build st"
  "element_stack (check_that_current_element_matches_class_for_value C st) = element_stack st"
  by (auto simp: check_that_current_element_matches_class_for_value_def append_def split: option.splits)

lemma set_field_simps [simp]:
  "logger (set_field k v st) = logger st"
  "elem_class (current_element (set_field k v st)) = elem_class (current_element st)"
  "elem_logger (current_element (set_field k v st)) = elem_logger (current_element st)"
  "map_of (elem_fields (current_element (set_field k v st))) = (map_of (elem_fields (current_element st)))(k \<mapsto> v)"
  "creation_info (set_field k v st) = creation_info st"
  "creation_info_logger (set_field k v st) = creation_info_logger st"
  "elements_build (set_field k v st) = elements_build st"
  "element_stack (set_field k v st) = element_stack st"
  by (simp_all add: set_field_def update_conv')

lemma log_element_simps [simp]:
  "logger (log_element m st) = logger st"
  "elem_class (current_element (log_element m st)) = elem_class (current_element st)"
  "elem_logger (current_element (log_element m st)) = elem_logger (current_element st) @ [m]"
  "elem_fields (current_element (log_element m st)) = elem_fields (current_element st)"
  "creation_info (log_element m st) = creation_info st"
  "creation_info_logger (log_element m st) = creation_info_logger st"
  "elements_build (log_element m st) = elements_build st"
  "element_stack (log_element m st) = element_stack st"
  by (simp_all add: log_element_def append_def)

lemma setdefault_append_other:
  "setdefault_append k v d = Inr d' \<Longrightarrow> k' \<noteq> k \<Longrightarrow> map_of d' k' = map_of d k'"
  by (auto simp: setdefault_append_def update_conv' split: option.splits val.splits)

lemma append_field_Inr:
  assumes "append_field k v st = Inr st'"
  shows "logger st' = logger st"
    "elem_class (current_element st') = elem_class (current_element st)"
    "elem_logger (current_element st') = elem_logger (current_element st)"
    "k' \<noteq> k \<Longrightarrow> map_of (elem_fields (current_element st')) k' = map_of (elem_fields (current_element st)) k'"
    "creation_info st' = creation_info st"
    "creation_info_logger st' = creation_info_logger st"
    "elements_build st' = elements_build st"
    "element_stack st' = element_stack st"
  using assms by (auto simp: append_field_def ebind_Inr_iff dest: setdefault_append_other)

lemma frame_set:
  "frame C k st (set_field k v (check_that_current_element_matches_class_for_value C st))"
  by (simp add: frame_def)

lemma frame_log:
  "frame C k st (log_element m (check_that_current_element_matches_class_for_value C st))"
  by (simp add: frame_def)

lemma frame_append:
  "append_field k v (check_that_current_element_matches_class_for_value C st) = Inr st' \<Longrightarrow> frame C k st st'"
  by (auto simp: frame_def dest: append_field_Inr)

lemma p_value_frame:
  "p_value (C, k, ar) v st = Inr st' \<Longrightarrow> frame C k st st'"
  by (cases ar) (auto simp: p_value_def Let_def frame_set frame_append)

lemma p_value_frame':
  "p_value rule v st = Inr st' \<Longrightarrow> frame (fst rule) (fst (snd rule)) st st'"
  by (cases rule) (auto dest: p_value_frame)

lemma license_info_frame:
  "p_file_license_info v st = Inr st' \<Longrightarrow> frame File ''license_info_in_file'' st st'"
  "p_pkg_license_info_from_file v st = Inr st' \<Longrightarrow> frame Package ''license_info_from_files'' st st'"
  "p_snippet_license_info v st = Inr st' \<Longrightarrow> frame Snippet ''license_info_in_snippet'' st st'"
  by (auto simp: p_file_license_info_def p_pkg_license_info_from_file_def p_snippet_license_info_def
      Let_def frame_set frame_append split: if_splits)

lemma p_date_frame:
  "p_date c rule s st = Inr st' \<Longrightarrow> frame (fst rule) (snd rule) st st'"
  by (cases rule) (auto simp: p_date_def Let_def ebind_Inr_iff frame_set)

lemma p_checksum_frame:
  assumes "p_checksum c C s st = Inr st'"
  shows "frame C ''checksums'' st st'"
proof -
  obtain msgs checksum where pc: "parse_checksum c s = (msgs, checksum)"
    by (cases "parse_checksum c s")
  define st1 where "st1 = check_that_current_element_matches_class_for_value C st"
  define st2 where "st2 = st1\<lparr>current_element := (current_element st1)
                      \<lparr>elem_logger := elem_logger (current_element st1) @ msgs\<rparr>\<rparr>"
  from assms pc have a: "append_field ''checksums'' checksum st2 = Inr st'"
    by (simp add: p_checksum_def Let_def st1_def st2_def)
  note f = append_field_Inr[OF a]
  show ?thesis
    unfolding frame_def using f by (simp add: st2_def st1_def)
qed

lemma p_file_type_frame: "p_file_type s st = Inr st' \<Longrightarrow> frame File ''file_type'' st st'"
  by (auto simp: p_file_type_def Let_def frame_append)

lemma p_pkg_external_refs_frame:
  "p_pkg_external_refs c s com st = Inr st' \<Longrightarrow> frame Package ''external_references'' st st'"
  by (auto simp: p_pkg_external_refs_def Let_def frame_log frame_append
      split: list.splits if_splits sum.splits exn.splits)

lemma p_pkg_verification_code_frame:
  "p_pkg_verification_code c s st = Inr st' \<Longrightarrow> frame Package ''verification_code'' st st'"
  by (auto simp: p_pkg_verification_code_def Let_def ebind_Inr_iff frame_set
      split: option.splits prod.splits)

lemma p_snippet_range_frame:
  "p_snippet_byte_range s st = Inr st' \<Longrightarrow> frame Snippet ''byte_range'' st st'"
  "p_snippet_line_range s st = Inr st' \<Longrightarrow> frame Snippet ''line_range'' st st'"
  by (auto simp: p_snippet_byte_range_def p_snippet_line_range_def Let_def ebind_Inr_iff
      frame_set frame_log split: if_splits)

lemma simple_frames:
  "frame File ''comment'' st (p_file_comment v st)"
  "frame Package ''primary_package_purpose'' st (p_primary_package_purpose s st)"
  "frame Annotation ''annotation_type'' st (p_annotation_type s st)"
  "frame Package ''files_analyzed'' st (p_pkg_files_analyzed s st)"
  by (simp_all add: p_file_comment_def p_primary_package_purpose_def p_annotation_type_def
      p_pkg_files_analyzed_def Let_def frame_def)

text \<open>
  Every handler of a value tag other than the annotation SPDXREF tag stays within the frame of
  its class and key, whenever it returns.
\<close>

lemma reduce_value_frame:
  assumes "reduce_value c a st = Inr st'" "\<not> is_annotation_spdx_id a"
  shows "frame (tag_class a) (tag_key a) st st'"
  using assms
  by (cases a)
    (auto simp: is_annotation_spdx_id_def ebind_Inr_iff simple_frames
      dest: p_value_frame' p_value_frame license_info_frame p_date_frame p_checksum_frame
        p_file_type_frame p_pkg_external_refs_frame p_pkg_verification_code_frame
        p_snippet_range_frame)

subsection \<open>What every reduction keeps\<close>

lemma grows_refl [simp]: "grows st st" by (simp add: grows_def)

lemma grows_trans: "grows a b \<Longrightarrow> grows b c \<Longrightarrow> grows a c"
  by (auto simp: grows_def)

lemma grows_logger_eq: "logger st' = logger st \<Longrightarrow> grows st st'"
  by (simp add: grows_def)

lemma grows_step: "grows st st1 \<Longrightarrow> logger st' = logger st1 \<Longrightarrow> grows st st'"
  by (simp add: grows_def)

lemma setdefault_append_packages_or_other:
  "setdefault_append k v d = Inr d' \<Longrightarrow> k \<noteq> ''spdx_id'' \<Longrightarrow>
     (map_of d' ''spdx_id'' \<noteq> None) = (map_of d ''spdx_id'' \<noteq> None)"
  by (auto simp: setdefault_append_def update_conv' split: option.splits val.splits)

lemma construct_current_element_Inr:
  assumes "construct_current_element c st = Inr st'"
  shows "grows st st'" "creation_info st' = creation_info st"
    "creation_info_logger st' = creation_info_logger st" "current_element st' = new_element"
  using assms
  by (auto simp: construct_current_element_def grows_def append_def Let_def ebind_Inr_iff
      split: option.splits sum.splits exn.splits if_splits)

lemma initialize_new_current_element_Inr:
  assumes "initialize_new_current_element c C st = Inr st'"
  shows "grows st st'" "creation_info st' = creation_info st"
    "creation_info_logger st' = creation_info_logger st"
    "current_element st' = new_element\<lparr>elem_class := Some C\<rparr>"
proof -
  define st1 where "st1 = (case (elem_class (current_element st),
                        map_of (elem_fields (current_element st)) ''spdx_id'') of
                   (Some cl, Some i) \<Rightarrow> st\<lparr>element_stack := element_stack st @ [(cl, i)]\<rparr>
                 | _ \<Rightarrow> st)"
  have st1: "logger st1 = logger st" "creation_info st1 = creation_info st"
         "creation_info_logger st1 = creation_info_logger st"
    by (simp_all add: st1_def split: option.splits)
  from assms obtain st2 where c: "construct_current_element c st1 = Inr st2"
    and st': "st' = st2\<lparr>current_element := (current_element st2)\<lparr>elem_class := Some C\<rparr>\<rparr>"
    unfolding initialize_new_current_element_def Let_def st1_def[symmetric]
    by (auto simp: ebind_Inr_iff)
  note f = construct_current_element_Inr[OF c]
  show "grows st st'" using f(1) st1(1) by (simp add: grows_def st')
  show "creation_info st' = creation_info st" using f(2) st1(2) by (simp add: st')
  show "creation_info_logger st' = creation_info_logger st" using f(3) st1(3) by (simp add: st')
  show "current_element st' = new_element\<lparr>elem_class := Some C\<rparr>" using f(4) by (simp add: st')
qed

lemma p_start_Inr:
  assumes "p_start c C k v st = Inr st'"
  shows "grows st st'" "creation_info st' = creation_info st"
proof -
  from assms obtain st1 where i: "initialize_new_current_element c C st = Inr st1"
    and st': "st' = set_field k (VStr v) st1"
    by (auto simp: p_start_def ebind_Inr_iff)
  note f = initialize_new_current_element_Inr[OF i]
  show "grows st st'" using f(1) by (rule grows_step) (simp add: st')
  show "creation_info st' = creation_info st" using f(2) by (simp add: st')
qed

lemma p_start_error_Inr:
  assumes "p_start_error c C m st = Inr st'"
  shows "grows st st'" "creation_info st' = creation_info st"
proof -
  from assms obtain st1 where i: "initialize_new_current_element c C st = Inr st1"
    and st': "st' = log_element m st1"
    by (auto simp: p_start_error_def ebind_Inr_iff)
  note f = initialize_new_current_element_Inr[OF i]
  show "grows st st'" using f(1) by (rule grows_step) (simp add: st')
  show "creation_info st' = creation_info st" using f(2) by (simp add: st')
qed

lemma p_annotator_Inr:
  assumes "p_annotator c v st = Inr st'"
  shows "grows st st'" "creation_info st' = creation_info st"
proof -
  from assms obtain st1 where i: "initialize_new_current_element c Annotation st = Inr st1"
    and body: "(case parse_actor c v of
          Inr actor \<Rightarrow> Inr (set_field ''annotator'' actor st1)
        | Inl (SPDXParsingError p) \<Rightarrow> Inr (log_element (as_entry p) st1)
        | Inl e \<Rightarrow> Inl e) = Inr st'"
    unfolding p_annotator_def ebind_Inr_iff by blast
  have st': "logger st' = logger st1 \<and> creation_info st' = creation_info st1"
  proof (cases "parse_actor c v")
    case (Inl e)
    with body show ?thesis by (cases e) auto
  next
    case (Inr actor)
    with body show ?thesis by auto
  qed
  note f = initialize_new_current_element_Inr[OF i]
  show "grows st st'" using f(1) by (rule grows_step) (simp add: st')
  show "creation_info st' = creation_info st" using f(2) by (simp add: st')
qed

lemma not_triple:
  "\<not> (\<exists>a b d. xs = [a, b, d]) \<Longrightarrow> (case xs of [a, b, d] \<Rightarrow> X a b d | _ \<Rightarrow> Y) = Y"
  by (auto split: list.splits)

lemma p_relationship_Inr0:
  assumes "p_relationship c v com n st = Inr st'"
  shows "\<exists>st1. initialize_new_current_element c Relationship st = Inr st1
           \<and> logger st' = logger st1 \<and> creation_info st' = creation_info st1"
proof (cases "initialize_new_current_element c Relationship st")
  case (Inl e)
  with assms show ?thesis by (simp add: p_relationship_def)
next
  case (Inr st1)
  show ?thesis
  proof (cases "\<exists>a b d. split (CHR '' '') v = [a, b, d]")
    case True
    then obtain a b d where "split (CHR '' '') v = [a, b, d]" by blast
    with assms Inr show ?thesis
      by (auto simp add: p_relationship_def Let_def split: sum.splits option.splits)
  next
    case False
    with assms Inr show ?thesis
      by (auto simp add: p_relationship_def not_triple)
  qed
qed

lemma p_relationship_Inr:
  assumes "p_relationship c v com n st = Inr st'"
  shows "grows st st'" "creation_info st' = creation_info st"
proof -
  from p_relationship_Inr0[OF assms] obtain st1 where
    i: "initialize_new_current_element c Relationship st = Inr st1"
    and st': "logger st' = logger st1 \<and> creation_info st' = creation_info st1"
    by blast
  note f = initialize_new_current_element_Inr[OF i]
  show "grows st st'" using f(1) by (rule grows_step) (simp add: st')
  show "creation_info st' = creation_info st" using f(2) by (simp add: st')
qed

lemma reduce_start_Inr:
  assumes "reduce_start c a st = Inr st'"
  shows "grows st st' \<and> creation_info st' = creation_info st"
  using assms
  by (cases a)
    (auto simp: ebind_Inr_iff dest: p_start_Inr p_start_error_Inr p_annotator_Inr p_relationship_Inr)

lemma reduce_value_Inr:
  assumes "reduce_value c a st = Inr st'"
  shows "grows st st' \<and> creation_info st' = creation_info st"
proof (cases "is_annotation_spdx_id a")
  case True
  then obtain s where "a = annotation_spdx_id s"
    by (cases a) (auto simp: is_annotation_spdx_id_def)
  with assms show ?thesis
    by (auto simp: p_annotation_spdx_id_def grows_def)
next
  case False
  from reduce_value_frame[OF assms False] show ?thesis
    by (auto simp: frame_def grows_def)
qed

lemma creation_keys:
  "creation_text_key t \<noteq> ''spdx_id''" "creation_line_key l \<noteq> ''spdx_id''"
  by (cases t; simp) (cases l; simp)

lemma doc_level_Inr:
  "grows st (p_spdx_id s st)" "document_id_set (p_spdx_id s st)"
  "grows st (p_unknown_tag n st)" "document_id_set (p_unknown_tag n st) = document_id_set st"
  "grows st (p_license_list_version c s st)"
  "document_id_set (p_license_list_version c s st) = document_id_set st"
  "k \<noteq> ''spdx_id'' \<Longrightarrow> document_id_set (p_creation_info_value k v st) = document_id_set st"
  "grows st (p_creation_info_value k v st)"
  "grows st (log_creation_info m st)" "document_id_set (log_creation_info m st) = document_id_set st"
  "grows st (log_element m st)" "document_id_set (log_element m st) = document_id_set st"
  by (auto simp: p_spdx_id_def p_unknown_tag_def p_license_list_version_def p_creation_info_value_def
      log_creation_info_def document_id_set_def grows_def append_def update_conv' split: sum.splits)

lemma p_external_document_ref_Inr:
  assumes "p_external_document_ref c p2 p3 p4 st = Inr st'"
  shows "grows st st' \<and> document_id_set st' = document_id_set st"
  using assms
  by (auto simp: p_external_document_ref_def Let_def ebind_Inr_iff grows_def document_id_set_def
      split: prod.splits dest: setdefault_append_packages_or_other)

lemma p_creator_Inr:
  assumes "p_creator c s st = Inr st'"
  shows "grows st st' \<and> document_id_set st' = document_id_set st"
  using assms
  by (auto simp: p_creator_def ebind_Inr_iff grows_def document_id_set_def
      dest: setdefault_append_packages_or_other)

lemma p_created_Inr:
  assumes "p_created c s st = Inr st'"
  shows "grows st st' \<and> document_id_set st' = document_id_set st"
  using assms
  by (auto simp: p_created_def ebind_Inr_iff grows_def document_id_set_def update_conv')

lemma reduce_Inr:
  assumes "reduce c a st = Inr st'"
  shows "grows st st' \<and> document_id_set st' = (document_id_set st \<or> is_spdx_id a)"
proof (cases a)
  case (start_tag x)
  with assms reduce_start_Inr[of c x st st'] show ?thesis
    by (simp add: is_spdx_id_def document_id_set_def)
next
  case (value_tag x)
  with assms reduce_value_Inr[of c x st st'] show ?thesis
    by (simp add: is_spdx_id_def document_id_set_def)
next
  case (ext_doc_ref p2 p3 p4)
  with assms p_external_document_ref_Inr[of c p2 p3 p4 st st'] show ?thesis
    by (simp add: is_spdx_id_def)
next
  case (creator s)
  with assms p_creator_Inr[of c s st st'] show ?thesis by (simp add: is_spdx_id_def)
next
  case (created s)
  with assms p_created_Inr[of c s st st'] show ?thesis by (simp add: is_spdx_id_def)
qed (insert assms, auto simp: is_spdx_id_def doc_level_Inr creation_keys)

lemma yacc_parse_Inr:
  "yacc_parse c toks st = Inr st' \<Longrightarrow>
     grows st st' \<and> document_id_set st' = (document_id_set st \<or> list_ex is_spdx_id toks)"
proof (induction toks arbitrary: st)
  case Nil
  then show ?case by simp
next
  case (Cons a toks)
  from Cons.prems obtain st1 where a: "reduce c a st = Inr st1"
    and r: "yacc_parse c toks st1 = Inr st'"
    by (auto simp: ebind_Inr_iff)
  from reduce_Inr[OF a] Cons.IH[OF r] show ?case
    by (auto intro: grows_trans)
qed

lemma yacc_parse_append:
  "yacc_parse c (xs @ ys) st = ebind (yacc_parse c xs st) (yacc_parse c ys)"
  by (induction xs arbitrary: st) (auto simp: ebind_def split: sum.splits)

lemma merge_grows: "grows st (merge_creation_info_logger st)"
  by (auto simp: merge_creation_info_logger_def grows_def append_def split: sum.splits exn.splits)

lemma end_of_input_grows:
  assumes "yacc_parse c toks Parser_init = Inr st1" "end_of_input c (toks @ rest) = Inr st2"
  shows "\<exists>ms. logger st2 = logger st1 @ ms"
proof -
  from assms obtain s2 s3 where y: "yacc_parse c rest st1 = Inr s2"
    and f: "construct_current_element c s2 = Inr s3" and m: "st2 = merge_creation_info_logger s3"
    by (auto simp: end_of_input_def yacc_parse_append ebind_Inr_iff)
  from yacc_parse_Inr[OF y] have "grows st1 s2" by simp
  moreover from construct_current_element_Inr(1)[OF f] have "grows s2 s3" .
  moreover have "grows s3 st2" unfolding m by (rule merge_grows)
  ultimately have "grows st1 st2" by (blast intro: grows_trans)
  then show ?thesis by (simp add: grows_def)
qed

subsection \<open>Runs on concrete inputs\<close>

lemmas run_defs =
  Parser_init_def new_element_def p_start_def p_start_error_def initialize_new_current_element_def
  construct_current_element_def set_field_def log_element_def append_field_def
  setdefault_append_def check_that_current_element_matches_class_for_value_def append_def
  raise_parsing_error_if_logger_has_messages_def has_messages_def get_messages_def
  construct_or_raise_parsing_error_def construct_direct_def as_entry_def
  check_for_preceding_package_and_build_contains_relationship_def
  p_spdx_id_def p_file_comment_def p_file_license_info_def p_pkg_license_info_from_file_def
  p_snippet_license_info_def p_file_type_def p_annotation_spdx_id_def p_value_def
  end_of_input_def merge_creation_info_logger_def parse_def Let_def

lemma accept_all_simps [simp]:
  "construct accept_all name args = Inr (VObj name args)"
  "str_from_text accept_all s = VStr s"
  "license_parse accept_all s = Inr (VObj ''LicenseExpression'' [(''text'', VStr s)])"
  by (simp_all add: accept_all_def)

subsection \<open>Scope check of the value tags\<close>

text \<open>
  Claim C1, as stated, fails: a value tag of another class logs the scope error, but the handler
  then writes its field all the same. With a Package open, \<open>FileComment: hi\<close> appends the
  scope error for File and sets the field \<open>comment\<close> of the open Package accumulator.
\<close>

theorem file_comment_written_out_of_scope:
  "yacc_parse accept_all [start_tag (package_name ''P'')] Parser_init = Inr package_open
   \<and> reduce accept_all (value_tag (file_comment (LINE ''hi''))) package_open =
       Inr (package_open\<lparr>logger := [not_in_scope File],
              current_element := (current_element package_open)
                \<lparr>elem_fields := [(''name'', VStr ''P''), (''comment'', VStr ''hi'')]\<rparr>\<rparr>)
   \<and> elem_fields (current_element package_open) = [(''name'', VStr ''P'')]"
  by (simp add: package_open_def run_defs)

text \<open>
  Claim C1, amended. When a value tag of class \<open>C\<close>, other than the annotation SPDXREF tag,
  arrives while the open accumulator has another class or no element is open, and its handler
  returns, then the scope error for \<open>C\<close> is appended to the document logger, the class of the
  accumulator is unchanged, and every field of the accumulator other than the one the tag
  names is unchanged; the field the tag names is not protected by the scope check
  (\<open>p_file_comment\<close> sets \<open>comment\<close> to the value in every state).
\<close>

theorem out_of_scope_value_tag_logs_and_writes:
  assumes "reduce c (value_tag a) st = Inr st'"
    and "\<not> is_annotation_spdx_id a"
    and "elem_class (current_element st) \<noteq> Some (tag_class a)"
  shows "logger st' = logger st @ [not_in_scope (tag_class a)]
    \<and> elem_class (current_element st') = elem_class (current_element st)
    \<and> (\<forall>k. k \<noteq> tag_key a \<longrightarrow>
          map_of (elem_fields (current_element st')) k = map_of (elem_fields (current_element st)) k)
    \<and> map_of (elem_fields (current_element (p_file_comment v st))) ''comment'' = Some v"
proof -
  from assms(1) have "reduce_value c a st = Inr st'" by simp
  from reduce_value_frame[OF this assms(2)] assms(3) show ?thesis
    by (simp add: frame_def p_file_comment_def)
qed

theorem out_of_scope_value_tag_logs_and_writes_witness:
  "reduce accept_all (value_tag (file_comment (LINE ''hi''))) package_open =
       Inr (p_file_comment (VStr ''hi'') package_open)
   \<and> \<not> is_annotation_spdx_id (file_comment (LINE ''hi''))
   \<and> elem_class (current_element package_open) \<noteq> Some (tag_class (file_comment (LINE ''hi'')))
   \<and> logger (p_file_comment (VStr ''hi'') package_open) = [not_in_scope File]
   \<and> elem_class (current_element (p_file_comment (VStr ''hi'') package_open)) = Some Package
   \<and> map_of (elem_fields (current_element (p_file_comment (VStr ''hi'') package_open))) ''name''
        = Some (VStr ''P'')
   \<and> map_of (elem_fields (current_element (p_file_comment (VStr ''hi'') package_open))) ''comment''
        = Some (VStr ''hi'')"
  using out_of_scope_value_tag_logs_and_writes [of accept_all "file_comment (LINE ''hi'')" package_open
      "p_file_comment (VStr ''hi'') package_open" "VStr ''hi''"]
  by (simp add: is_annotation_spdx_id_def package_open_def Parser_init_def)

text \<open>
  Claim C10. The handler of the annotation SPDXREF tag never raises and performs no scope
  check: in every state it sets the field \<open>spdx_id\<close> of the current accumulator, whatever
  its class and also when no element is open, and leaves the document logger, the class and
  the logger of the accumulator unchanged. Every other value-tag handler that returns in a
  state where its class is not the open one has appended the scope error.
\<close>

theorem annotation_spdx_id_no_scope_check:
  "reduce c (value_tag (annotation_spdx_id s)) st = Inr (p_annotation_spdx_id s st)
   \<and> logger (p_annotation_spdx_id s st) = logger st
   \<and> elem_class (current_element (p_annotation_spdx_id s st)) = elem_class (current_element st)
   \<and> elem_logger (current_element (p_annotation_spdx_id s st)) = elem_logger (current_element st)
   \<and> map_of (elem_fields (current_element (p_annotation_spdx_id s st))) =
       (map_of (elem_fields (current_element st)))(''spdx_id'' \<mapsto> VStr s)
   \<and> (\<not> is_annotation_spdx_id a
          \<and> elem_class (current_element st1) \<noteq> Some (tag_class a)
          \<and> reduce c (value_tag a) st1 = Inr st1'
        \<longrightarrow> logger st1' = logger st1 @ [not_in_scope (tag_class a)])"
proof -
  have "logger st1' = logger st1 @ [not_in_scope (tag_class a)]"
    if "\<not> is_annotation_spdx_id a" "elem_class (current_element st1) \<noteq> Some (tag_class a)"
      "reduce c (value_tag a) st1 = Inr st1'"
  proof -
    from that(3) have "reduce_value c a st1 = Inr st1'" by simp
    from reduce_value_frame[OF this that(1)] that(2) show ?thesis by (simp add: frame_def)
  qed
  then show ?thesis by (simp add: p_annotation_spdx_id_def)
qed

theorem annotation_spdx_id_no_scope_check_witness:
  "logger (p_annotation_spdx_id ''SPDXRef-File'' Parser_init) = []
   \<and> elem_class (current_element (p_annotation_spdx_id ''SPDXRef-File'' Parser_init)) = None
   \<and> map_of (elem_fields (current_element (p_annotation_spdx_id ''SPDXRef-File'' Parser_init)))
        ''spdx_id'' = Some (VStr ''SPDXRef-File'')
   \<and> \<not> is_annotation_spdx_id (file_comment (LINE ''hi''))
   \<and> elem_class (current_element Parser_init) \<noteq> Some (tag_class (file_comment (LINE ''hi'')))
   \<and> reduce accept_all (value_tag (file_comment (LINE ''hi''))) Parser_init
        = Inr (p_file_comment (VStr ''hi'') Parser_init)
   \<and> logger (p_file_comment (VStr ''hi'') Parser_init) = [not_in_scope File]"
  using annotation_spdx_id_no_scope_check [of accept_all "''SPDXRef-File''" Parser_init "file_comment (LINE ''hi'')" Parser_init
      "p_file_comment (VStr ''hi'') Parser_init"]
  by (simp add: is_annotation_spdx_id_def Parser_init_def new_element_def)

subsection \<open>The target of an SPDXID token\<close>

text \<open>
  Claim C8, as stated, fails in both halves: what decides the target of an SPDXID token is
  whether the creation info has an \<open>spdx_id\<close>, not whether a start tag was seen. After
  \<open>PackageName: P\<close>, the first \<open>SPDXID\<close> of the input sets the \<open>spdx_id\<close> of the creation info
  and leaves the Package without one; of two \<open>SPDXID\<close> tokens before any start tag, the second
  is written to the current accumulator, where no element is open.
\<close>

theorem spdx_id_target_ignores_class_tags:
  "yacc_parse accept_all [start_tag (package_name ''P''), spdx_id ''SPDXRef-P''] Parser_init =
     Inr (Parser_init\<lparr>current_element :=
            \<lparr>elem_class = Some Package, elem_logger = [], elem_fields = [(''name'', VStr ''P'')]\<rparr>,
          creation_info := [(''spdx_id'', VStr ''SPDXRef-P'')]\<rparr>)
   \<and> yacc_parse accept_all [spdx_id ''D'', spdx_id ''E''] Parser_init =
     Inr (Parser_init\<lparr>current_element :=
            \<lparr>elem_class = None, elem_logger = [], elem_fields = [(''spdx_id'', VStr ''E'')]\<rparr>,
          creation_info := [(''spdx_id'', VStr ''D'')]\<rparr>)"
  by (simp add: run_defs)

text \<open>
  Claim C8, amended. After any input the parser has consumed, an SPDXID token sets the
  \<open>spdx_id\<close> of the creation info if no SPDXID token came before it, and otherwise sets the
  \<open>spdx_id\<close> of the current accumulator and leaves the creation info unchanged; start tags
  play no part.
\<close>

theorem spdx_id_target_by_earlier_spdx_id:
  assumes "yacc_parse c pre Parser_init = Inr st"
  shows "reduce c (spdx_id v) st =
     Inr (if list_ex is_spdx_id pre
          then set_field ''spdx_id'' (VStr v) st
          else st\<lparr>creation_info := AList.update ''spdx_id'' (VStr v) (creation_info st)\<rparr>)
    \<and> creation_info (set_field ''spdx_id'' (VStr v) st) = creation_info st"
proof -
  have "\<not> document_id_set Parser_init"
    by (simp add: document_id_set_def Parser_init_def)
  with yacc_parse_Inr[OF assms] have "document_id_set st = list_ex is_spdx_id pre" by simp
  then show ?thesis by (simp add: p_spdx_id_def document_id_set_def)
qed

theorem spdx_id_target_by_earlier_spdx_id_witness:
  "yacc_parse accept_all [spdx_id ''D'', start_tag (package_name ''P'')] Parser_init =
     Inr (package_open\<lparr>creation_info := [(''spdx_id'', VStr ''D'')]\<rparr>)
   \<and> reduce accept_all (spdx_id ''SPDXRef-P'') (package_open\<lparr>creation_info := [(''spdx_id'', VStr ''D'')]\<rparr>) =
     Inr (set_field ''spdx_id'' (VStr ''SPDXRef-P'') (package_open\<lparr>creation_info := [(''spdx_id'', VStr ''D'')]\<rparr>))
   \<and> yacc_parse accept_all [] Parser_init = Inr Parser_init
   \<and> reduce accept_all (spdx_id ''D'') Parser_init = Inr (Parser_init\<lparr>creation_info := [(''spdx_id'', VStr ''D'')]\<rparr>)"
proof -
  have a: "yacc_parse accept_all [spdx_id ''D'', start_tag (package_name ''P'')] Parser_init =
     Inr (package_open\<lparr>creation_info := [(''spdx_id'', VStr ''D'')]\<rparr>)"
    by (simp add: run_defs package_open_def)
  have b: "yacc_parse accept_all [] Parser_init = Inr Parser_init" by simp
  from spdx_id_target_by_earlier_spdx_id[OF a, of "''SPDXRef-P''"] spdx_id_target_by_earlier_spdx_id[OF b, of "''D''"] a b show ?thesis
    by (simp add: is_spdx_id_def Parser_init_def)
qed

subsection \<open>The outcome of \<open>parse\<close>\<close>

text \<open>
  Claim C7, as stated, fails in one direction: an empty document logger at the end of the input
  does not give a Document when the typed construction of the creation info (or of the
  document) fails. On the empty input, with a construction that requires the fields of the
  creation info, the logger is empty and \<open>parse\<close> raises the construction error.
\<close>

theorem empty_aggregator_without_document:
  "end_of_input checking_required_fields [] = Inr Parser_init
   \<and> logger Parser_init = []
   \<and> parse checking_required_fields [] =
       Inl (SPDXParsingError (PList [StrRepr ''Error while constructing CreationInfo: ''
              [Str ''spdx_id'', Str ''name'', Str ''document_namespace'', Str ''spdx_version'',
               Str ''data_license'', Str ''creators'', Str ''created'']]))"
  by (simp add: run_defs checking_required_fields_def accept_all_def required_fields_def)

text \<open>
  Claim C7, amended. \<open>parse\<close> returns a Document only if the document logger is empty after the
  end-of-input finalization and the typed construction of the creation info and of the
  document succeed; the value it returns is then the constructed document. Whenever that
  logger is non-empty, \<open>parse\<close> raises an \<open>SPDXParsingError\<close> that carries the logger's whole
  list, and this list extends, in order, the document logger of every earlier moment of the
  parse. When the logger is empty and the typed construction of the creation info fails,
  \<open>parse\<close> raises an \<open>SPDXParsingError\<close> of one message that holds the messages of that failure;
  when the creation info is constructed and the construction of the document fails, it raises
  the same for the document. An exception raised while the input is consumed or the open
  element is finalized is raised by \<open>parse\<close> as it is.
\<close>

theorem parse_outcome_by_aggregator:
  "(parse c toks = Inr d \<longrightarrow>
      (\<exists>st ci. end_of_input c toks = Inr st \<and> logger st = []
         \<and> construct c ''CreationInfo'' (creation_info st) = Inr ci
         \<and> construct c ''Document'' (AList.update ''creation_info'' ci (elements_build st)) = Inr d))
   \<and> (end_of_input c toks = Inr st \<and> logger st \<noteq> []
        \<longrightarrow> parse c toks = Inl (SPDXParsingError (PList (logger st))))
   \<and> (yacc_parse c pre Parser_init = Inr st1 \<and> end_of_input c (pre @ rest) = Inr st2
        \<longrightarrow> (\<exists>ms. logger st2 = logger st1 @ ms))
   \<and> (end_of_input c toks = Inr st \<and> logger st = []
        \<and> construct c ''CreationInfo'' (creation_info st) = Inr ci
        \<and> construct c ''Document'' (AList.update ''creation_info'' ci (elements_build st)) = Inr doc
        \<longrightarrow> parse c toks = Inr doc)
   \<and> (end_of_input c toks = Inr st \<and> logger st = []
        \<and> construct c ''CreationInfo'' (creation_info st) = Inl errs
        \<longrightarrow> parse c toks = Inl (SPDXParsingError (PList
              [StrRepr ''Error while constructing CreationInfo: '' errs])))
   \<and> (end_of_input c toks = Inr st \<and> logger st = []
        \<and> construct c ''CreationInfo'' (creation_info st) = Inr ci
        \<and> construct c ''Document'' (AList.update ''creation_info'' ci (elements_build st)) = Inl errs
        \<longrightarrow> parse c toks = Inl (SPDXParsingError (PList
              [StrRepr ''Error while constructing Document: '' errs])))
   \<and> (end_of_input c toks = Inl e \<longrightarrow> parse c toks = Inl e)"
proof (intro conjI impI)
  assume "parse c toks = Inr d"
  then show "\<exists>st ci. end_of_input c toks = Inr st \<and> logger st = []
         \<and> construct c ''CreationInfo'' (creation_info st) = Inr ci
         \<and> construct c ''Document'' (AList.update ''creation_info'' ci (elements_build st)) = Inr d"
    by (auto simp: parse_def ebind_Inr_iff raise_parsing_error_if_logger_has_messages_def
        has_messages_def construct_or_raise_parsing_error_def split: if_splits sum.splits)
next
  assume "end_of_input c toks = Inr st \<and> logger st \<noteq> []"
  then show "parse c toks = Inl (SPDXParsingError (PList (logger st)))"
    by (simp add: parse_def raise_parsing_error_if_logger_has_messages_def has_messages_def
        get_messages_def)
next
  assume "yacc_parse c pre Parser_init = Inr st1 \<and> end_of_input c (pre @ rest) = Inr st2"
  then show "\<exists>ms. logger st2 = logger st1 @ ms" using end_of_input_grows by blast
next
  assume "end_of_input c toks = Inr st \<and> logger st = []
        \<and> construct c ''CreationInfo'' (creation_info st) = Inr ci
        \<and> construct c ''Document'' (AList.update ''creation_info'' ci (elements_build st)) = Inr doc"
  then show "parse c toks = Inr doc"
    by (simp add: parse_def raise_parsing_error_if_logger_has_messages_def has_messages_def
        construct_or_raise_parsing_error_def)
next
  assume "end_of_input c toks = Inr st \<and> logger st = []
        \<and> construct c ''CreationInfo'' (creation_info st) = Inl errs"
  then show "parse c toks = Inl (SPDXParsingError (PList
              [StrRepr ''Error while constructing CreationInfo: '' errs]))"
    by (simp add: parse_def raise_parsing_error_if_logger_has_messages_def has_messages_def
        construct_or_raise_parsing_error_def)
next
  assume "end_of_input c toks = Inr st \<and> logger st = []
        \<and> construct c ''CreationInfo'' (creation_info st) = Inr ci
        \<and> construct c ''Document'' (AList.update ''creation_info'' ci (elements_build st)) = Inl errs"
  then show "parse c toks = Inl (SPDXParsingError (PList
              [StrRepr ''Error while constructing Document: '' errs]))"
    by (simp add: parse_def raise_parsing_error_if_logger_has_messages_def has_messages_def
        construct_or_raise_parsing_error_def)
next
  assume "end_of_input c toks = Inl e"
  then show "parse c toks = Inl e" by (simp add: parse_def)
qed

theorem parse_outcome_by_aggregator_witness:
  "end_of_input accept_all [unknown_tag 1, unknown_tag 2] =
     Inr (Parser_init\<lparr>logger := [StrLine ''Unknown tag provided in line '' 1,
                                  StrLine ''Unknown tag provided in line '' 2]\<rparr>)
   \<and> parse accept_all [unknown_tag 1, unknown_tag 2] =
     Inl (SPDXParsingError (PList [StrLine ''Unknown tag provided in line '' 1,
                                  StrLine ''Unknown tag provided in line '' 2]))
   \<and> end_of_input checking_required_fields complete_creation_info_input =
     Inr (Parser_init\<lparr>creation_info := complete_creation_info\<rparr>)
   \<and> parse checking_required_fields complete_creation_info_input =
     Inr (VObj ''Document'' [(''creation_info'', VObj ''CreationInfo'' complete_creation_info)])
   \<and> parse checking_required_fields [creation_line DOC_NAME ''doc''] =
     Inl (SPDXParsingError (PList [StrRepr ''Error while constructing CreationInfo: ''
            [Str ''spdx_id'', Str ''document_namespace'', Str ''spdx_version'',
             Str ''data_license'', Str ''creators'', Str ''created'']]))
   \<and> parse rejecting_document complete_creation_info_input =
     Inl (SPDXParsingError (PList [StrRepr ''Error while constructing Document: ''
            [Str ''rejected'']]))
   \<and> end_of_input accept_all [value_tag (pkg_verif ''XYZ'')] = Inl AttributeError
   \<and> parse accept_all [value_tag (pkg_verif ''XYZ'')] = Inl AttributeError"
proof -
  let ?two = "Parser_init\<lparr>logger := [StrLine ''Unknown tag provided in line '' 1,
                                  StrLine ''Unknown tag provided in line '' 2]\<rparr>"
  let ?full = "Parser_init\<lparr>creation_info := complete_creation_info\<rparr>"
  let ?ci = "VObj ''CreationInfo'' complete_creation_info"
  have a: "end_of_input accept_all [unknown_tag 1, unknown_tag 2] = Inr ?two"
    by (simp add: run_defs p_unknown_tag_def)
  have b: "end_of_input checking_required_fields complete_creation_info_input = Inr ?full"
    by (simp add: run_defs p_creation_info_value_def p_creator_def p_created_def
        complete_creation_info_input_def complete_creation_info_def
        checking_required_fields_def accept_all_def)
  have b': "end_of_input rejecting_document complete_creation_info_input = Inr ?full"
    by (simp add: run_defs p_creation_info_value_def p_creator_def p_created_def
        complete_creation_info_input_def complete_creation_info_def rejecting_document_def
        checking_required_fields_def accept_all_def)
  have c: "end_of_input checking_required_fields [creation_line DOC_NAME ''doc''] =
      Inr (Parser_init\<lparr>creation_info := [(''name'', VStr ''doc'')]\<rparr>)"
    by (simp add: run_defs p_creation_info_value_def)
  have d: "end_of_input accept_all [value_tag (pkg_verif ''XYZ'')] = Inl AttributeError"
    by (simp add: run_defs p_pkg_verification_code_def verif_code_regex_match_def
        is_hex_lower_def not_in_scope_def)
  have ci: "construct checking_required_fields ''CreationInfo'' complete_creation_info = Inr ?ci"
    by (simp add: checking_required_fields_def accept_all_def required_fields_def
        complete_creation_info_def)
  have ci': "construct rejecting_document ''CreationInfo'' complete_creation_info = Inr ?ci"
    by (simp add: rejecting_document_def checking_required_fields_def accept_all_def
        required_fields_def complete_creation_info_def)
  from parse_outcome_by_aggregator [of accept_all "[unknown_tag 1, unknown_tag 2]" _ ?two] a
  have 1: "parse accept_all [unknown_tag 1, unknown_tag 2] =
     Inl (SPDXParsingError (PList [StrLine ''Unknown tag provided in line '' 1,
                                  StrLine ''Unknown tag provided in line '' 2]))"
    by simp
  from parse_outcome_by_aggregator [of checking_required_fields complete_creation_info_input _
      ?full _ _ _ _ ?ci "VObj ''Document'' [(''creation_info'', ?ci)]"] b ci
  have 2: "parse checking_required_fields complete_creation_info_input =
     Inr (VObj ''Document'' [(''creation_info'', ?ci)])"
    by (simp add: Parser_init_def checking_required_fields_def accept_all_def required_fields_def)
  from parse_outcome_by_aggregator [of checking_required_fields "[creation_line DOC_NAME ''doc'']" _
      "Parser_init\<lparr>creation_info := [(''name'', VStr ''doc'')]\<rparr>" _ _ _ _ _ _
      "[Str ''spdx_id'', Str ''document_namespace'', Str ''spdx_version'',
             Str ''data_license'', Str ''creators'', Str ''created'']"] c
  have 3: "parse checking_required_fields [creation_line DOC_NAME ''doc''] =
     Inl (SPDXParsingError (PList [StrRepr ''Error while constructing CreationInfo: ''
            [Str ''spdx_id'', Str ''document_namespace'', Str ''spdx_version'',
             Str ''data_license'', Str ''creators'', Str ''created'']]))"
    by (simp add: Parser_init_def checking_required_fields_def accept_all_def required_fields_def)
  from parse_outcome_by_aggregator [of rejecting_document complete_creation_info_input _
      ?full _ _ _ _ ?ci _ "[Str ''rejected'']"] b' ci'
  have 4: "parse rejecting_document complete_creation_info_input =
     Inl (SPDXParsingError (PList [StrRepr ''Error while constructing Document: ''
            [Str ''rejected'']]))"
    by (simp add: Parser_init_def rejecting_document_def)
  from parse_outcome_by_aggregator [of accept_all "[value_tag (pkg_verif ''XYZ'')]" _ _ _ _ _ _ _ _ _
      AttributeError] d
  have 5: "parse accept_all [value_tag (pkg_verif ''XYZ'')] = Inl AttributeError" by simp
  from a b 1 2 3 4 5 d show ?thesis by simp
qed

subsection \<open>The package verification code\<close>

text \<open>
  Claim C9. For every value that is empty or does not begin with a lowercase hexadecimal
  digit the pattern does not match, the handler of PackageVerificationCode raises
  \<open>AttributeError\<close> in every state, and so does \<open>parse\<close> on \<open>PackageName\<close> followed by such a
  verification code, for all collaborators: no local error is appended and nothing continues.
\<close>

theorem pkg_verification_code_AttributeError:
  assumes "s = [] \<or> \<not> is_hex_lower (hd s)"
  shows "verif_code_regex_match s = None
    \<and> p_pkg_verification_code c s st = Inl AttributeError
    \<and> parse c [start_tag (package_name n), value_tag (pkg_verif s)] = Inl AttributeError"
proof -
  from assms have t: "takeWhile is_hex_lower s = []" by (simp add: takeWhile_eq_Nil_iff)
  then have m: "verif_code_regex_match s = None" by (simp add: verif_code_regex_match_def)
  then have h: "p_pkg_verification_code c s st = Inl AttributeError" for st
    by (simp add: p_pkg_verification_code_def)
  show ?thesis using m h
    by (simp add: parse_def end_of_input_def Parser_init_def new_element_def p_start_def
        initialize_new_current_element_def construct_current_element_def)
qed

theorem pkg_verification_code_AttributeError_witness:
  "(''xyz'' = [] \<or> \<not> is_hex_lower (hd ''xyz''))
   \<and> verif_code_regex_match ''xyz'' = None
   \<and> p_pkg_verification_code accept_all ''xyz'' package_open = Inl AttributeError
   \<and> parse accept_all [start_tag (package_name ''P''), value_tag (pkg_verif ''xyz'')] = Inl AttributeError"
  using pkg_verification_code_AttributeError [of "''xyz''" accept_all package_open "''P''"]
  by (simp add: is_hex_lower_def)

text \<open>A value that begins with a lowercase hexadecimal digit does match.\<close>

lemma verif_code_regex_match_hex:
  "s \<noteq> [] \<Longrightarrow> is_hex_lower (hd s) \<Longrightarrow> verif_code_regex_match s \<noteq> None"
  by (cases s) (simp_all add: verif_code_regex_match_def Let_def)

subsection \<open>Sentinels and concrete entries of a license-info field\<close>

text \<open>
  A sentinel overwrites whatever the field holds. A concrete entry that arrives when the field
  holds a sentinel calls \<open>append\<close> on the sentinel: an \<open>AttributeError\<close>.
\<close>

lemma sentinel_overwrites:
  assumes "v = SpdxNone \<or> v = SpdxNoAssertion"
  shows "p_file_license_info v st =
           Inr (set_field ''license_info_in_file'' v
                  (check_that_current_element_matches_class_for_value File st))"
    "p_pkg_license_info_from_file v st =
           Inr (set_field ''license_info_from_files'' v
                  (check_that_current_element_matches_class_for_value Package st))"
  using assms by (auto simp: p_file_license_info_def p_pkg_license_info_from_file_def)

lemma concrete_after_sentinel_raises:
  assumes "v \<noteq> SpdxNone" "v \<noteq> SpdxNoAssertion"
  shows "map_of (elem_fields (current_element st)) ''license_info_in_file'' = Some SpdxNone
           \<or> map_of (elem_fields (current_element st)) ''license_info_in_file'' = Some SpdxNoAssertion
         \<Longrightarrow> p_file_license_info v st = Inl AttributeError"
    "map_of (elem_fields (current_element st)) ''license_info_from_files'' = Some SpdxNone
           \<or> map_of (elem_fields (current_element st)) ''license_info_from_files'' = Some SpdxNoAssertion
         \<Longrightarrow> p_pkg_license_info_from_file v st = Inl AttributeError"
  using assms
  by (auto simp: p_file_license_info_def p_pkg_license_info_from_file_def append_field_def
      setdefault_append_def Let_def)

text \<open>
  Claim C6. A later write to a license-info field should win without failing. For
  \<open>LicenseInfoInFile: MIT\<close> followed by \<open>LicenseInfoInFile: NONE\<close> the sentinel replaces the
  list. For the sentinel followed by \<open>MIT\<close> the handler raises \<open>AttributeError\<close>, which ends
  \<open>parse\<close>; the same happens for \<open>PackageLicenseInfoFromFiles: NOASSERTION\<close> followed by
  \<open>MIT\<close>.
\<close>

theorem license_info_after_sentinel_raises:
  "yacc_parse accept_all
     [start_tag (file_name ''f.c''), value_tag (file_lics_info (NotNone (Token ''MIT''))),
      value_tag (file_lics_info NONE)] Parser_init =
     Inr (Parser_init\<lparr>current_element := \<lparr>elem_class = Some File, elem_logger = [],
            elem_fields = [(''name'', VStr ''f.c''), (''license_info_in_file'', SpdxNone)]\<rparr>\<rparr>)
   \<and> yacc_parse accept_all
     [start_tag (file_name ''f.c''), value_tag (file_lics_info NONE),
      value_tag (file_lics_info (NotNone (Token ''MIT'')))] Parser_init = Inl AttributeError
   \<and> parse accept_all
     [start_tag (file_name ''f.c''), value_tag (file_lics_info NONE),
      value_tag (file_lics_info (NotNone (Token ''MIT'')))] = Inl AttributeError
   \<and> parse accept_all
     [start_tag (package_name ''P''), value_tag (pkg_lic_ff (NotNone NO_ASSERTION)),
      value_tag (pkg_lic_ff (NotNone (Token ''MIT'')))] = Inl AttributeError"
  by (simp add: run_defs)

subsection \<open>Implicit containment\<close>

lemma getattr_cases: "getattr v n = Inl AttributeError \<or> (\<exists>x. getattr v n = Inr x)"
  by (cases v) (auto split: option.splits)

text \<open>
  With a preceding package, the CONTAINS edge is appended unless it is in the list of
  relationships, but only when \<open>elements_build\<close> has the key \<open>relationships\<close>: the membership
  test indexes the dict and raises \<open>KeyError\<close> when no Relationship element was finalized
  before the file.
\<close>

lemma contains_edge_needs_relationships_key:
  assumes "map_of current_fields ''spdx_id'' = Some f"
    and "map_of eb ''packages'' = Some (VList pkgs)" "pkgs \<noteq> []"
    and "getattr (last pkgs) ''spdx_id'' = Inr p"
    and "construct c ''Relationship'' [(''spdx_element_id'', p),
           (''relationship_type'', VRelationshipType CONTAINS),
           (''related_spdx_element_id'', f)] = Inr r"
  shows "map_of eb ''relationships'' = None \<Longrightarrow>
           check_for_preceding_package_and_build_contains_relationship c current_fields eb
             = Inl KeyError"
    and "map_of eb ''relationships'' = Some (VList rels) \<Longrightarrow>
           check_for_preceding_package_and_build_contains_relationship c current_fields eb
             = Inr (if r \<in> set rels then eb
                    else AList.update ''relationships'' (VList (rels @ [r])) eb)"
  using assms
  by (simp_all add: check_for_preceding_package_and_build_contains_relationship_def
      construct_direct_def setdefault_append_def)

text \<open>
  Claim C2. The input \<open>SPDXID: D\<close>, \<open>PackageName: P\<close>, \<open>SPDXID: SPDXRef-P\<close>, \<open>FileName: f.c\<close>,
  \<open>SPDXID: SPDXRef-f\<close>, \<open>FileType: SOURCE\<close> should parse without raising and yield a Package,
  a File and the CONTAINS relationship. Whatever the collaborators do, \<open>parse\<close> raises on this
  input; when the typed construction accepts the Package, the File and the Relationship, what
  it raises is the \<open>KeyError\<close> of the missing key \<open>relationships\<close>.
\<close>

theorem implicit_containment_example_raises:
  "(\<exists>e. parse c implicit_containment_input = Inl e)
   \<and> parse accept_all implicit_containment_input = Inl KeyError"
proof
  show "parse accept_all implicit_containment_input = Inl KeyError"
    by (simp add: implicit_containment_input_def run_defs)
  show "\<exists>e. parse c implicit_containment_input = Inl e"
  proof (cases "construct c ''Package'' [(''name'', VStr ''P''), (''spdx_id'', VStr ''SPDXRef-P'')]")
    case pkg: (Inl ms)
    show ?thesis
    proof (cases "construct c ''File'' [(''name'', VStr ''f.c''), (''spdx_id'', VStr ''SPDXRef-f''),
                    (''file_type'', VList [VEnum ''FileType'' ''SOURCE''])]")
      case (Inl ms')
      with pkg show ?thesis by (simp add: implicit_containment_input_def run_defs)
    next
      case (Inr f)
      with pkg show ?thesis by (simp add: implicit_containment_input_def run_defs)
    qed
  next
    case pkg: (Inr p)
    show ?thesis
    proof (cases "construct c ''File'' [(''name'', VStr ''f.c''), (''spdx_id'', VStr ''SPDXRef-f''),
                    (''file_type'', VList [VEnum ''FileType'' ''SOURCE''])]")
      case (Inl ms')
      with pkg show ?thesis by (simp add: implicit_containment_input_def run_defs)
    next
      case fobj: (Inr f)
      from getattr_cases[of p "''spdx_id''"] show ?thesis
      proof
        assume "getattr p ''spdx_id'' = Inl AttributeError"
        with pkg fobj show ?thesis by (simp add: implicit_containment_input_def run_defs)
      next
        assume "\<exists>x. getattr p ''spdx_id'' = Inr x"
        then obtain x where x: "getattr p ''spdx_id'' = Inr x" by blast
        show ?thesis
        proof (cases "construct c ''Relationship'' [(''spdx_element_id'', x),
                           (''relationship_type'', VRelationshipType CONTAINS),
                           (''related_spdx_element_id'', VStr ''SPDXRef-f'')]")
          case (Inl a)
          with pkg fobj x show ?thesis by (simp add: implicit_containment_input_def run_defs)
        next
          case (Inr r)
          with pkg fobj x show ?thesis by (simp add: implicit_containment_input_def run_defs)
        qed
      qed
    qed
  qed
qed

text \<open>The same input after one explicit relationship yields the document with the CONTAINS edge.\<close>

lemma implicit_containment_after_a_relationship:
  "parse accept_all (start_tag (relationship None ''A DESCRIBES B'' None 1) # implicit_containment_input)
   = Inr (VObj ''Document''
       [(''relationships'',
         VList
          [VObj ''Relationship''
            [(''relationship_type'', VRelationshipType DESCRIBES),
             (''related_spdx_element_id'', VStr ''B''),
             (''spdx_element_id'', VStr ''A'')],
           VObj ''Relationship''
            [(''spdx_element_id'', VStr ''SPDXRef-P''),
             (''relationship_type'', VRelationshipType CONTAINS),
             (''related_spdx_element_id'', VStr ''SPDXRef-f'')]]),
        (''packages'',
         VList
          [VObj ''Package''
            [(''name'', VStr ''P''), (''spdx_id'', VStr ''SPDXRef-P'')]]),
        (''files'',
         VList
          [VObj ''File''
            [(''name'', VStr ''f.c''), (''spdx_id'', VStr ''SPDXRef-f''),
             (''file_type'', VList [VEnum ''FileType'' ''SOURCE''])]]),
        (''creation_info'',
         VObj ''CreationInfo'' [(''spdx_id'', VStr ''D'')])])"
  by (simp add: implicit_containment_input_def run_defs p_relationship_def p_relationship_value_def RelationshipType_getitem_def accept_all_def)

end
